theory Spec2Isabelle
  imports Main
begin

section \<open>Data model (shared/schema.ts)\<close>

text \<open>
  The tables of \<^verbatim>\<open>shared/schema.ts\<close> as lists of rows. A tenant is a row of
  \<^verbatim>\<open>users\<close>, identified by the string \<^verbatim>\<open>users.id\<close>; every other table carries the
  owner in its \<^verbatim>\<open>userId\<close> column. Integer columns are \<^typ>\<open>int\<close>; the operations
  that write a number sent by the caller check that it fits the 32-bit column. Timestamps are milliseconds since the epoch,
  \<^verbatim>\<open>decimal(10,2)\<close> amounts are counted in cents. A column that is not declared
  \<^verbatim>\<open>notNull\<close> is an \<^typ>\<open>'a option\<close>, with \<^term>\<open>None\<close> for SQL NULL. Columns that no
  modelled operation reads (contact data, descriptions, image URLs) are left out of
  \<^verbatim>\<open>customers\<close>, \<^verbatim>\<open>services\<close> and \<^verbatim>\<open>reviews\<close>.
\<close>

type_synonym tenant = string
type_synonym timestamp = int

record customer_row =
  c_id :: int
  c_userId :: tenant
  c_name :: string

record service_row =
  s_id :: int
  s_userId :: tenant
  s_name :: string
  s_price :: int
  s_duration :: int
  s_isActive :: "bool option"

record appointment_row =
  a_id :: int
  a_userId :: tenant
  a_customerId :: int
  a_serviceId :: int
  a_barber :: "string option"
  a_startTime :: timestamp
  a_endTime :: timestamp
  a_status :: "string option"
  a_notes :: "string option"
  a_createdAt :: "timestamp option"
  a_updatedAt :: "timestamp option"

record queue_row =
  q_id :: int
  q_userId :: tenant
  q_customerId :: int
  q_serviceId :: int
  q_barber :: "string option"
  q_position :: int
  q_status :: "string option"
  q_estimatedWaitTime :: "int option"
  q_joinedAt :: "timestamp option"
  q_updatedAt :: "timestamp option"

record review_row =
  r_id :: int
  r_userId :: tenant
  r_customerId :: int
  r_appointmentId :: "int option"
  r_rating :: int

record transaction_row =
  t_id :: int
  t_userId :: tenant
  t_customerId :: "int option"
  t_appointmentId :: "int option"
  t_total :: int
  t_paymentMethod :: string
  t_status :: "string option"
  t_createdAt :: "timestamp option"

text \<open>
  The database: the tables, and for the two tables the modelled operations insert into,
  the sequence behind the \<^verbatim>\<open>serial\<close> primary key. (The fields carry the suffix
  \<open>_table\<close> to keep the plain names for the variables of the source.)
\<close>

record database =
  users_table :: "tenant list"
  customers_table :: "customer_row list"
  services_table :: "service_row list"
  appointments_table :: "appointment_row list"
  appointments_id_seq :: int
  queue_table :: "queue_row list"
  queue_id_seq :: int
  reviews_table :: "review_row list"
  transactions_table :: "transaction_row list"

text \<open>
  A key of an insert or update payload whose column is nullable can be absent
  (\<^verbatim>\<open>undefined\<close>: the column default on insert, no change on update), \<^verbatim>\<open>null\<close>, or a
  value.
\<close>

datatype 'a supplied = Undefined | Null | Value 'a

text \<open>\<^verbatim>\<open>InsertQueue\<close> and \<^verbatim>\<open>InsertAppointment\<close>: the column types without the omitted
  keys (\<^verbatim>\<open>id\<close>, \<^verbatim>\<open>userId\<close> and the timestamps the database fills in). For a nullable
  column without a default, an absent key and \<^verbatim>\<open>null\<close> both store NULL, so one
  \<^term>\<open>None\<close> stands for both.\<close>

record InsertQueue =
  iq_customerId :: int
  iq_serviceId :: int
  iq_barber :: "string option"
  iq_position :: int
  iq_status :: "string supplied"
  iq_estimatedWaitTime :: "int option"

record InsertAppointment =
  ia_customerId :: int
  ia_serviceId :: int
  ia_barber :: "string option"
  ia_startTime :: timestamp
  ia_endTime :: timestamp
  ia_status :: "string supplied"
  ia_notes :: "string option"

text \<open>\<^verbatim>\<open>Partial<InsertAppointment>\<close>: every key may be absent.\<close>

record PartialInsertAppointment =
  pa_customerId :: "int option"
  pa_serviceId :: "int option"
  pa_barber :: "string supplied"
  pa_startTime :: "timestamp option"
  pa_endTime :: "timestamp option"
  pa_status :: "string supplied"
  pa_notes :: "string supplied"

text \<open>
  The ways a modelled statement can fail: a foreign key that does not resolve (on insert
  or update), a row that is still referenced (on delete), or a number that does not fit
  the 32-bit \<^verbatim>\<open>integer\<close> column it is written to or compared with. A failed statement
  changes no table.
\<close>

datatype db_error = ForeignKeyViolation | NumericValueOutOfRange

definition in_int4 :: "int \<Rightarrow> bool" where
  "in_int4 n = (- 2147483648 \<le> n \<and> n \<le> 2147483647)"

definition with_default :: "'a \<Rightarrow> 'a supplied \<Rightarrow> 'a option" where
  "with_default d v = (case v of Undefined \<Rightarrow> Some d | Null \<Rightarrow> None | Value x \<Rightarrow> Some x)"

definition assign :: "'a option \<Rightarrow> 'a \<Rightarrow> 'a" where
  "assign v old = (case v of None \<Rightarrow> old | Some x \<Rightarrow> x)"

definition assign_nullable :: "'a supplied \<Rightarrow> 'a option \<Rightarrow> 'a option" where
  "assign_nullable v old = (case v of Undefined \<Rightarrow> old | Null \<Rightarrow> None | Value x \<Rightarrow> Some x)"

text \<open>\<^verbatim>\<open>const [row] = await ...returning()\<close>: the first returned row, \<^verbatim>\<open>undefined\<close> when
  the statement touched none.\<close>

definition first_row :: "'a list \<Rightarrow> 'a option" where
  "first_row rows = (case rows of [] \<Rightarrow> None | r # _ \<Rightarrow> Some r)"

section \<open>Storage operations (class DatabaseStorage)\<close>

text \<open>
  Each method of \<^verbatim>\<open>DatabaseStorage\<close> is a function of the database (and of the clock
  where the statement writes \<^verbatim>\<open>new Date()\<close> or a \<^verbatim>\<open>defaultNow()\<close> column) that
  returns what the method returns together with the database after the statement.
\<close>

subsection \<open>Queue operations\<close>

definition getQueue :: "tenant \<Rightarrow> database \<Rightarrow> queue_row list" where
  "getQueue userId db = sort_key q_position (filter (\<lambda>r. q_userId r = userId) (queue_table db))"

definition queue_fk_ok :: "InsertQueue \<Rightarrow> tenant \<Rightarrow> database \<Rightarrow> bool" where
  "queue_fk_ok queueItem userId db =
     (userId \<in> set (users_table db) \<and>
      iq_customerId queueItem \<in> set (map c_id (customers_table db)) \<and>
      iq_serviceId queueItem \<in> set (map s_id (services_table db)))"

text \<open>The numbers of the payload fit their columns. (Where the insert schema already
  checks the range, the refusal comes earlier; the handler answers alike.)\<close>

definition queue_values_in_range :: "InsertQueue \<Rightarrow> bool" where
  "queue_values_in_range queueItem =
     (in_int4 (iq_customerId queueItem) \<and> in_int4 (iq_serviceId queueItem) \<and>
      in_int4 (iq_position queueItem) \<and>
      (case iq_estimatedWaitTime queueItem of None \<Rightarrow> True | Some w \<Rightarrow> in_int4 w))"

definition addToQueue ::
  "timestamp \<Rightarrow> InsertQueue \<Rightarrow> tenant \<Rightarrow> database \<Rightarrow> db_error + (queue_row \<times> database)" where
  "addToQueue now queueItem userId db =
     (if \<not> queue_values_in_range queueItem then Inl NumericValueOutOfRange
      else if \<not> queue_fk_ok queueItem userId db then Inl ForeignKeyViolation
      else
        let newQueueItem =
              \<lparr>q_id = queue_id_seq db,
               q_userId = userId,
               q_customerId = iq_customerId queueItem,
               q_serviceId = iq_serviceId queueItem,
               q_barber = iq_barber queueItem,
               q_position = iq_position queueItem,
               q_status = with_default ''waiting'' (iq_status queueItem),
               q_estimatedWaitTime = iq_estimatedWaitTime queueItem,
               q_joinedAt = Some now,
               q_updatedAt = Some now\<rparr>
        in Inr (newQueueItem,
                db\<lparr>queue_table := queue_table db @ [newQueueItem], queue_id_seq := queue_id_seq db + 1\<rparr>))"

definition updateQueuePosition ::
  "timestamp \<Rightarrow> int \<Rightarrow> int \<Rightarrow> database \<Rightarrow> db_error + (queue_row option \<times> database)" where
  "updateQueuePosition now ident position db =
     (if \<not> (in_int4 ident \<and> in_int4 position) then Inl NumericValueOutOfRange
      else
        let rows = map (\<lambda>r. if q_id r = ident
                               then r\<lparr>q_position := position, q_updatedAt := Some now\<rparr>
                               else r) (queue_table db)
        in Inr (first_row (filter (\<lambda>r. q_id r = ident) rows), db\<lparr>queue_table := rows\<rparr>))"

definition updateQueueStatus ::
  "timestamp \<Rightarrow> int \<Rightarrow> string \<Rightarrow> database \<Rightarrow> queue_row option \<times> database" where
  "updateQueueStatus now ident status db =
     (let rows = map (\<lambda>r. if q_id r = ident
                             then r\<lparr>q_status := Some status, q_updatedAt := Some now\<rparr>
                             else r) (queue_table db)
      in (first_row (filter (\<lambda>r. q_id r = ident) rows), db\<lparr>queue_table := rows\<rparr>))"

definition removeFromQueue :: "int \<Rightarrow> database \<Rightarrow> database" where
  "removeFromQueue ident db = db\<lparr>queue_table := filter (\<lambda>r. q_id r \<noteq> ident) (queue_table db)\<rparr>"

subsection \<open>Appointment operations\<close>

definition appointment_fk_ok :: "appointment_row \<Rightarrow> database \<Rightarrow> bool" where
  "appointment_fk_ok r db =
     (a_userId r \<in> set (users_table db) \<and>
      a_customerId r \<in> set (map c_id (customers_table db)) \<and>
      a_serviceId r \<in> set (map s_id (services_table db)))"

definition createAppointment ::
  "timestamp \<Rightarrow> InsertAppointment \<Rightarrow> tenant \<Rightarrow> database \<Rightarrow>
     db_error + (appointment_row \<times> database)" where
  "createAppointment now appointment userId db =
     (let newAppointment =
            \<lparr>a_id = appointments_id_seq db,
             a_userId = userId,
             a_customerId = ia_customerId appointment,
             a_serviceId = ia_serviceId appointment,
             a_barber = ia_barber appointment,
             a_startTime = ia_startTime appointment,
             a_endTime = ia_endTime appointment,
             a_status = with_default ''scheduled'' (ia_status appointment),
             a_notes = ia_notes appointment,
             a_createdAt = Some now,
             a_updatedAt = Some now\<rparr>
      in if \<not> (in_int4 (ia_customerId appointment) \<and> in_int4 (ia_serviceId appointment))
         then Inl NumericValueOutOfRange
         else if \<not> appointment_fk_ok newAppointment db then Inl ForeignKeyViolation
         else Inr (newAppointment,
                   db\<lparr>appointments_table := appointments_table db @ [newAppointment],
                      appointments_id_seq := appointments_id_seq db + 1\<rparr>))"

definition set_appointment ::
  "timestamp \<Rightarrow> PartialInsertAppointment \<Rightarrow> appointment_row \<Rightarrow> appointment_row" where
  "set_appointment now appointment r =
     r\<lparr>a_customerId := assign (pa_customerId appointment) (a_customerId r),
       a_serviceId := assign (pa_serviceId appointment) (a_serviceId r),
       a_barber := assign_nullable (pa_barber appointment) (a_barber r),
       a_startTime := assign (pa_startTime appointment) (a_startTime r),
       a_endTime := assign (pa_endTime appointment) (a_endTime r),
       a_status := assign_nullable (pa_status appointment) (a_status r),
       a_notes := assign_nullable (pa_notes appointment) (a_notes r),
       a_updatedAt := Some now\<rparr>"

text \<open>An update checks the foreign keys it writes, on the rows it touches.\<close>

definition update_fk_ok :: "PartialInsertAppointment \<Rightarrow> database \<Rightarrow> bool" where
  "update_fk_ok appointment db =
     ((case pa_customerId appointment of
         None \<Rightarrow> True | Some c \<Rightarrow> c \<in> set (map c_id (customers_table db))) \<and>
      (case pa_serviceId appointment of
         None \<Rightarrow> True | Some v \<Rightarrow> v \<in> set (map s_id (services_table db))))"

definition updateAppointment ::
  "timestamp \<Rightarrow> int \<Rightarrow> PartialInsertAppointment \<Rightarrow> database \<Rightarrow>
     db_error + (appointment_row option \<times> database)" where
  "updateAppointment now ident appointment db =
     (let rows = map (\<lambda>r. if a_id r = ident then set_appointment now appointment r else r)
                   (appointments_table db);
          updated = filter (\<lambda>r. a_id r = ident) rows
      in if updated \<noteq> [] \<and> \<not> update_fk_ok appointment db then Inl ForeignKeyViolation
         else Inr (first_row updated, db\<lparr>appointments_table := rows\<rparr>))"

definition appointment_referenced :: "int \<Rightarrow> database \<Rightarrow> bool" where
  "appointment_referenced ident db =
     (list_ex (\<lambda>r. r_appointmentId r = Some ident) (reviews_table db) \<or>
      list_ex (\<lambda>t. t_appointmentId t = Some ident) (transactions_table db))"

definition deleteAppointment :: "int \<Rightarrow> database \<Rightarrow> db_error + database" where
  "deleteAppointment ident db =
     (if list_ex (\<lambda>r. a_id r = ident) (appointments_table db) \<and> appointment_referenced ident db
      then Inl ForeignKeyViolation
      else Inr (db\<lparr>appointments_table := filter (\<lambda>r. a_id r \<noteq> ident) (appointments_table db)\<rparr>))"

subsection \<open>Analytics operations\<close>

text \<open>
  \<^verbatim>\<open>today.setHours(0, 0, 0, 0)\<close> is the local midnight at or before the instant, for a
  server whose zone is \<open>tz\<close> milliseconds east of UTC; \<^verbatim>\<open>setDate(getDate() + 1)\<close> on a
  midnight is the midnight one calendar day later (a zone with a fixed offset: no
  daylight-saving change).
\<close>

definition setHours0 :: "int \<Rightarrow> timestamp \<Rightarrow> timestamp" where
  "setHours0 tz t = t - (t + tz) mod 86400000"

definition nextDate :: "timestamp \<Rightarrow> timestamp" where
  "nextDate t = t + 86400000"

text \<open>\<^verbatim>\<open>Math.round(sum / length)\<close> on integers, \<open>length > 0\<close>: the quotient rounded to
  the nearest integer, halves upwards.\<close>

definition Math_round_quotient :: "int \<Rightarrow> int \<Rightarrow> int" where
  "Math_round_quotient s n = (2 * s + n) div (2 * n)"

record DashboardStats =
  todayQueueCount :: nat
  todayAppointmentCount :: nat
  averageWaitTime :: int
  todayRevenue :: int

definition getDashboardStats :: "int \<Rightarrow> timestamp \<Rightarrow> tenant \<Rightarrow> database \<Rightarrow> DashboardStats" where
  "getDashboardStats tz now userId db =
     (let today = setHours0 tz now;
          tomorrow = nextDate today;
          queueCount = length (filter (\<lambda>r. q_userId r = userId) (queue_table db));
          appointmentCount =
            length (filter (\<lambda>r. a_userId r = userId \<and> a_startTime r = today \<and>
                                 a_startTime r = tomorrow) (appointments_table db));
          queueItems = filter (\<lambda>r. q_userId r = userId) (queue_table db);
          averageWaitTime =
            (if length queueItems > 0
             then Math_round_quotient
                    (foldl (\<lambda>sum item. sum + (case q_estimatedWaitTime item of
                                                  None \<Rightarrow> 0 | Some w \<Rightarrow> w)) 0 queueItems)
                    (int (length queueItems))
             else 0);
          todayTransactions =
            filter (\<lambda>r. t_userId r = userId \<and> t_createdAt r = Some today \<and>
                         t_createdAt r = Some tomorrow) (transactions_table db);
          todayRevenue = foldl (\<lambda>sum transaction. sum + t_total transaction) 0 todayTransactions
      in \<lparr>todayQueueCount = queueCount,
          todayAppointmentCount = appointmentCount,
          averageWaitTime = averageWaitTime,
          todayRevenue = todayRevenue\<rparr>)"

section \<open>Routes (registerRoutes)\<close>

text \<open>
  A handler answers \<^verbatim>\<open>res.json(...)\<close>, or \<^verbatim>\<open>res.status(500).json({ message })\<close> when
  the schema or the storage call throws. Every handler runs behind \<^verbatim>\<open>isAuthenticated\<close>;
  the argument \<open>caller\<close> is the authenticated tenant \<^verbatim>\<open>req.user.claims.sub\<close>, which only
  the \<^verbatim>\<open>POST\<close> handlers read. The body of a queue request is taken after
  \<^verbatim>\<open>insertQueueSchema.parse\<close>, as a value of the payload type.
\<close>

datatype 'a response = Json 'a | Status500 string

text \<open>
  The body of an appointment request is taken as JSON sends it. The insert schema maps the
  two timestamp columns to \<^verbatim>\<open>z.date()\<close>, which accepts instances of \<^verbatim>\<open>Date\<close> only, and no
  JSON value is one: a key \<^verbatim>\<open>startTime\<close> or \<^verbatim>\<open>endTime\<close> that is present fails the parse,
  whatever it carries. The full schema requires both keys, the partial schema none.
\<close>

datatype json = JString string | JNumber int | JNull

datatype zod_error = ZodError

record appointment_body =
  b_customerId :: "int option"
  b_serviceId :: "int option"
  b_barber :: "string supplied"
  b_startTime :: "json option"
  b_endTime :: "json option"
  b_status :: "string supplied"
  b_notes :: "string supplied"

definition z_date :: "json \<Rightarrow> zod_error + timestamp" where
  "z_date v = (case v of JString s \<Rightarrow> Inl ZodError | JNumber n \<Rightarrow> Inl ZodError
               | JNull \<Rightarrow> Inl ZodError)"

definition nullable :: "'a supplied \<Rightarrow> 'a option" where
  "nullable v = (case v of Undefined \<Rightarrow> None | Null \<Rightarrow> None | Value x \<Rightarrow> Some x)"

definition insertAppointmentSchema_parse :: "appointment_body \<Rightarrow> zod_error + InsertAppointment" where
  "insertAppointmentSchema_parse data =
     (case (b_customerId data, b_serviceId data, b_startTime data, b_endTime data) of
        (Some customerId, Some serviceId, Some startTime, Some endTime) \<Rightarrow>
          (case z_date startTime of
             Inl e \<Rightarrow> Inl e
           | Inr s \<Rightarrow>
               (case z_date endTime of
                  Inl e \<Rightarrow> Inl e
                | Inr t \<Rightarrow>
                    Inr \<lparr>ia_customerId = customerId, ia_serviceId = serviceId,
                         ia_barber = nullable (b_barber data), ia_startTime = s,
                         ia_endTime = t, ia_status = b_status data,
                         ia_notes = nullable (b_notes data)\<rparr>))
      | _ \<Rightarrow> Inl ZodError)"

definition z_date_optional :: "json option \<Rightarrow> zod_error + timestamp option" where
  "z_date_optional v =
     (case v of None \<Rightarrow> Inr None
      | Some x \<Rightarrow> (case z_date x of Inl e \<Rightarrow> Inl e | Inr t \<Rightarrow> Inr (Some t)))"

definition insertAppointmentSchema_partial_parse ::
  "appointment_body \<Rightarrow> zod_error + PartialInsertAppointment" where
  "insertAppointmentSchema_partial_parse data =
     (case z_date_optional (b_startTime data) of
        Inl e \<Rightarrow> Inl e
      | Inr s \<Rightarrow>
          (case z_date_optional (b_endTime data) of
             Inl e \<Rightarrow> Inl e
           | Inr t \<Rightarrow>
               Inr \<lparr>pa_customerId = b_customerId data, pa_serviceId = b_serviceId data,
                    pa_barber = b_barber data, pa_startTime = s, pa_endTime = t,
                    pa_status = b_status data, pa_notes = b_notes data\<rparr>))"

definition post_api_queue ::
  "timestamp \<Rightarrow> tenant \<Rightarrow> InsertQueue \<Rightarrow> database \<Rightarrow> queue_row response \<times> database" where
  "post_api_queue now caller queueData db =
     (case addToQueue now queueData caller db of
        Inr (queueItem, db') \<Rightarrow> (Json queueItem, db')
      | Inl e \<Rightarrow> (Status500 ''Failed to add to queue'', db))"

definition put_api_queue_position ::
  "timestamp \<Rightarrow> tenant \<Rightarrow> int \<Rightarrow> int \<Rightarrow> database \<Rightarrow> queue_row option response \<times> database" where
  "put_api_queue_position now caller queueId position db =
     (case updateQueuePosition now queueId position db of
        Inr (queueItem, db') \<Rightarrow> (Json queueItem, db')
      | Inl e \<Rightarrow> (Status500 ''Failed to update queue position'', db))"

definition put_api_queue_status ::
  "timestamp \<Rightarrow> tenant \<Rightarrow> int \<Rightarrow> string \<Rightarrow> database \<Rightarrow> queue_row option response \<times> database" where
  "put_api_queue_status now caller queueId status db =
     (case updateQueueStatus now queueId status db of
        (queueItem, db') \<Rightarrow> (Json queueItem, db'))"

definition delete_api_queue :: "tenant \<Rightarrow> int \<Rightarrow> database \<Rightarrow> string response \<times> database" where
  "delete_api_queue caller queueId db =
     (Json ''Removed from queue successfully'', removeFromQueue queueId db)"

definition post_api_appointments ::
  "timestamp \<Rightarrow> tenant \<Rightarrow> appointment_body \<Rightarrow> database \<Rightarrow>
     appointment_row response \<times> database" where
  "post_api_appointments now caller body db =
     (case insertAppointmentSchema_parse body of
        Inl z \<Rightarrow> (Status500 ''Failed to create appointment'', db)
      | Inr appointmentData \<Rightarrow>
          (case createAppointment now appointmentData caller db of
             Inr (appointment, db') \<Rightarrow> (Json appointment, db')
           | Inl e \<Rightarrow> (Status500 ''Failed to create appointment'', db)))"

definition put_api_appointments ::
  "timestamp \<Rightarrow> tenant \<Rightarrow> int \<Rightarrow> appointment_body \<Rightarrow> database \<Rightarrow>
     appointment_row option response \<times> database" where
  "put_api_appointments now caller appointmentId body db =
     (case insertAppointmentSchema_partial_parse body of
        Inl z \<Rightarrow> (Status500 ''Failed to update appointment'', db)
      | Inr appointmentData \<Rightarrow>
          (case updateAppointment now appointmentId appointmentData db of
             Inr (appointment, db') \<Rightarrow> (Json appointment, db')
           | Inl e \<Rightarrow> (Status500 ''Failed to update appointment'', db)))"

definition delete_api_appointments ::
  "tenant \<Rightarrow> int \<Rightarrow> database \<Rightarrow> string response \<times> database" where
  "delete_api_appointments caller appointmentId db =
     (case deleteAppointment appointmentId db of
        Inr db' \<Rightarrow> (Json ''Appointment deleted successfully'', db')
      | Inl e \<Rightarrow> (Status500 ''Failed to delete appointment'', db))"

section \<open>The booking form (AppointmentBookingModal)\<close>

text \<open>
  The component holds the results of its queries, each \<^verbatim>\<open>undefined\<close> (\<^term>\<open>None\<close>)
  until it has loaded: \<^verbatim>\<open>services\<close>, and for a walk-in \<^verbatim>\<open>queueData\<close>, the answer of
  \<^verbatim>\<open>GET /api/queue\<close>. A \<^verbatim>\<open>datetime-local\<close> string \<^verbatim>\<open>YYYY-MM-DDTHH:mm\<close> is the number of
  minutes from \<^verbatim>\<open>1970-01-01T00:00\<close> to the date and time it writes, read without a
  zone; the empty string is \<^term>\<open>None\<close>.
\<close>

record form_values =
  f_customerId :: int
  f_serviceId :: int
  f_barber :: string
  f_startTime :: "int option"
  f_endTime :: "int option"
  f_notes :: string
  f_position :: int

record walkin_values =
  w_customerId :: int
  w_serviceId :: int
  w_barber :: string
  w_position :: int
  w_estimatedWaitTime :: int

datatype body = WalkIn walkin_values | Booking form_values











text \<open>
  \<^verbatim>\<open>new Date(startTime)\<close> reads a \<^verbatim>\<open>datetime-local\<close> string in the browser's zone, \<open>tz\<close>
  minutes east of UTC; \<^verbatim>\<open>toISOString().slice(0, 16)\<close> writes an instant in UTC, cut
  after the minutes.
\<close>

definition Date_of_local :: "int \<Rightarrow> int \<Rightarrow> timestamp" where
  "Date_of_local tz s = (s - tz) * 60000"

definition toISOString_slice16 :: "timestamp \<Rightarrow> int" where
  "toISOString_slice16 t = t div 60000"

definition handleStartTimeChange ::
  "int \<Rightarrow> bool \<Rightarrow> service_row list option \<Rightarrow> form_values \<Rightarrow> int \<Rightarrow> form_values" where
  "handleStartTimeChange tz isWalkIn services form startTime =
     (let serviceId = f_serviceId form;
          service = (case services of None \<Rightarrow> None
                     | Some ss \<Rightarrow> find (\<lambda>s. s_id s = serviceId) ss)
      in case service of
           None \<Rightarrow> form
         | Some s \<Rightarrow>
             if \<not> isWalkIn then
               let start = Date_of_local tz startTime;
                   end_date = start + s_duration s * 60000
               in form\<lparr>f_endTime := Some (toISOString_slice16 end_date)\<rparr>
             else form)"

section \<open>Notions of the specification\<close>

text \<open>A queue entry is non-terminal while its status is not \<^verbatim>\<open>completed\<close>.\<close>

definition non_terminal :: "queue_row \<Rightarrow> bool" where
  "non_terminal r = (q_status r \<noteq> Some ''completed'')"

definition live_entries :: "tenant \<Rightarrow> database \<Rightarrow> queue_row list" where
  "live_entries userId db =
     filter (\<lambda>r. q_userId r = userId \<and> non_terminal r) (queue_table db)"

text \<open>The density invariant: the positions of a tenant's non-terminal entries are
  exactly \<open>{1, ..., N}\<close>, \<open>N\<close> the number of these entries.\<close>

definition dense :: "tenant \<Rightarrow> database \<Rightarrow> bool" where
  "dense userId db =
     (set (map q_position (live_entries userId db)) =
        {1 .. int (length (live_entries userId db))})"

definition queue_entry :: "int \<Rightarrow> database \<Rightarrow> queue_row option" where
  "queue_entry ident db = find (\<lambda>r. q_id r = ident) (queue_table db)"

definition appointment_entry :: "int \<Rightarrow> database \<Rightarrow> appointment_row option" where
  "appointment_entry ident db = find (\<lambda>r. a_id r = ident) (appointments_table db)"

definition customer_entry :: "int \<Rightarrow> database \<Rightarrow> customer_row option" where
  "customer_entry ident db = find (\<lambda>c. c_id c = ident) (customers_table db)"

definition service_entry :: "int \<Rightarrow> database \<Rightarrow> service_row option" where
  "service_entry ident db = find (\<lambda>s. s_id s = ident) (services_table db)"


text \<open>A status-change request for an appointment: a body that carries \<^verbatim>\<open>status\<close>
  only.\<close>

definition status_only :: "string \<Rightarrow> appointment_body" where
  "status_only status =
     \<lparr>b_customerId = None, b_serviceId = None, b_barber = Undefined, b_startTime = None,
      b_endTime = None, b_status = Value status, b_notes = Undefined\<rparr>"

section \<open>Sample states\<close>

text \<open>
  Two shops, \<open>A\<close> and \<open>B\<close>. Shop \<open>A\<close> has customer 1 and the services Haircut (30 minutes)
  and Shave (15 minutes); shop \<open>B\<close> has customer 2 and its own Haircut.
\<close>

definition shop :: database where
  "shop =
     \<lparr>users_table = [''A'', ''B''],
      customers_table =
        [\<lparr>c_id = 1, c_userId = ''A'', c_name = ''Ann''\<rparr>,
         \<lparr>c_id = 2, c_userId = ''B'', c_name = ''Bob''\<rparr>],
      services_table =
        [\<lparr>s_id = 1, s_userId = ''A'', s_name = ''Haircut'', s_price = 2000, s_duration = 30,
          s_isActive = Some True\<rparr>,
         \<lparr>s_id = 2, s_userId = ''A'', s_name = ''Shave'', s_price = 1500, s_duration = 15,
          s_isActive = Some True\<rparr>,
         \<lparr>s_id = 3, s_userId = ''B'', s_name = ''Haircut'', s_price = 2500, s_duration = 30,
          s_isActive = Some True\<rparr>],
      appointments_table = [],
      appointments_id_seq = 1,
      queue_table = [],
      queue_id_seq = 1,
      reviews_table = [],
      transactions_table = []\<rparr>"

definition walk_in :: "int \<Rightarrow> int \<Rightarrow> int \<Rightarrow> InsertQueue" where
  "walk_in customerId serviceId position =
     \<lparr>iq_customerId = customerId, iq_serviceId = serviceId, iq_barber = None,
      iq_position = position, iq_status = Undefined, iq_estimatedWaitTime = Some 0\<rparr>"

definition entry :: "int \<Rightarrow> tenant \<Rightarrow> int \<Rightarrow> string \<Rightarrow> queue_row" where
  "entry ident userId position status =
     \<lparr>q_id = ident, q_userId = userId,
      q_customerId = (if userId = ''A'' then 1 else 2),
      q_serviceId = (if userId = ''A'' then 1 else 3),
      q_barber = None, q_position = position, q_status = Some status,
      q_estimatedWaitTime = Some 0, q_joinedAt = Some 0, q_updatedAt = Some 0\<rparr>"

definition shop_with_queue :: "queue_row list \<Rightarrow> database" where
  "shop_with_queue rows = shop\<lparr>queue_table := rows, queue_id_seq := 1 + int (length rows)\<rparr>"

definition booking :: "timestamp \<Rightarrow> timestamp \<Rightarrow> InsertAppointment" where
  "booking startTime endTime =
     \<lparr>ia_customerId = 1, ia_serviceId = 1, ia_barber = None, ia_startTime = startTime,
      ia_endTime = endTime, ia_status = Undefined, ia_notes = None\<rparr>"

definition payment :: "int \<Rightarrow> int \<Rightarrow> string \<Rightarrow> timestamp \<Rightarrow> transaction_row" where
  "payment ident amount status createdAt =
     \<lparr>t_id = ident, t_userId = ''A'', t_customerId = Some 1, t_appointmentId = None,
      t_total = amount, t_paymentMethod = ''cash'', t_status = Some status,
      t_createdAt = Some createdAt\<rparr>"

text \<open>Shop \<open>A\<close> on 2024-01-01 (UTC): a pending payment of 20.00 at 09:00 and a completed
  payment of 35.00 at 09:30.\<close>

definition two_payments_today :: database where
  "two_payments_today =
     shop\<lparr>transactions_table :=
            [payment 1 2000 ''pending'' 1704099600000,
             payment 2 3500 ''completed'' 1704101400000]\<rparr>"

text \<open>Three walk-ins of shop \<open>A\<close> in line at positions 1, 2 and 3, all waiting.\<close>

definition three_in_line :: database where
  "three_in_line =
     shop_with_queue [entry 1 ''A'' 1 ''waiting'', entry 2 ''A'' 2 ''waiting'',
                      entry 3 ''A'' 3 ''waiting'']"

text \<open>An appointment of shop \<open>A\<close> for a Haircut on 2024-01-01 from 09:00 to 09:30 (UTC).\<close>

definition haircut_at_nine :: "int \<Rightarrow> string \<Rightarrow> appointment_row" where
  "haircut_at_nine ident status =
     \<lparr>a_id = ident, a_userId = ''A'', a_customerId = 1, a_serviceId = 1, a_barber = None,
      a_startTime = 1704099600000, a_endTime = 1704101400000, a_status = Some status,
      a_notes = None, a_createdAt = Some 0, a_updatedAt = Some 0\<rparr>"

definition shop_with_appointments :: "appointment_row list \<Rightarrow> database" where
  "shop_with_appointments rows =
     shop\<lparr>appointments_table := rows, appointments_id_seq := 1 + int (length rows)\<rparr>"



text \<open>The queues of both shops: three entries of shop \<open>A\<close> and one of shop \<open>B\<close>.\<close>

definition two_queues :: database where
  "two_queues =
     shop_with_queue [entry 1 ''A'' 1 ''in_progress'', entry 2 ''A'' 2 ''waiting'',
                      entry 3 ''A'' 3 ''waiting'', entry 4 ''B'' 1 ''waiting'']"

section \<open>Admission through \<^verbatim>\<open>POST /api/queue\<close>\<close>

lemma post_api_queue_out_of_range:
  assumes "\<not> queue_values_in_range queueData"
  shows "post_api_queue now caller queueData db = (Status500 ''Failed to add to queue'', db)"
  using assms by (simp add: post_api_queue_def addToQueue_def)

text \<open>
  C10. \<^verbatim>\<open>POST /api/queue\<close> persists the caller-supplied \<^verbatim>\<open>position\<close> and
  \<^verbatim>\<open>estimatedWaitTime\<close> verbatim. Whenever the payload's numbers fit the 32-bit integer
  columns and its foreign keys resolve, the handler answers with the new row, that row
  is appended to the queue table, and its position and estimated wait are the
  payload's, whatever their values in that range: the handler computes neither of them
  and checks them against nothing else.
\<close>

theorem post_api_queue_stores_verbatim:
  assumes "queue_fk_ok queueData caller db"
    and "queue_values_in_range queueData"
  shows "\<exists>row. post_api_queue now caller queueData db =
            (Json row, db\<lparr>queue_table := queue_table db @ [row],
                          queue_id_seq := queue_id_seq db + 1\<rparr>) \<and>
          q_position row = iq_position queueData \<and>
          q_estimatedWaitTime row = iq_estimatedWaitTime queueData \<and>
          q_userId row = caller"
  using assms by (simp add: post_api_queue_def addToQueue_def Let_def)

theorem post_api_queue_stores_verbatim_witness:
  "queue_fk_ok (walk_in 1 1 (- 7)) ''A'' shop \<and>
   queue_values_in_range (walk_in 1 1 (- 7)) \<and>
   (\<exists>row. post_api_queue 5 ''A'' (walk_in 1 1 (- 7)) shop =
            (Json row, shop\<lparr>queue_table := queue_table shop @ [row],
                            queue_id_seq := queue_id_seq shop + 1\<rparr>) \<and>
          q_position row = - 7 \<and>
          q_estimatedWaitTime row = Some 0 \<and>
          q_userId row = ''A'')"
proof -
  have fk: "queue_fk_ok (walk_in 1 1 (- 7)) ''A'' shop"
    by (simp add: queue_fk_ok_def walk_in_def shop_def)
  have range: "queue_values_in_range (walk_in 1 1 (- 7))"
    by (simp add: queue_values_in_range_def in_int4_def walk_in_def)
  from post_api_queue_stores_verbatim [OF fk range, of 5] fk range show ?thesis
    by (simp add: walk_in_def)
qed

section \<open>The wait-time estimate\<close>






section \<open>Dashboard statistics\<close>

lemma getDashboardStats_todayRevenue:
  "todayRevenue (getDashboardStats tz now userId db) = 0"
  by (simp add: getDashboardStats_def Let_def nextDate_def)

text \<open>
  C9. The claim asks for \<open>todayRevenue = 55.00\<close> for a tenant with a pending payment of
  20.00 and a completed payment of 35.00 today. Both payments of the sample state lie in
  today's window, and \<^verbatim>\<open>getDashboardStats\<close> returns a revenue of \<open>0\<close>: its filter asks for
  \<^verbatim>\<open>createdAt\<close> to be equal to today's midnight and equal to tomorrow's midnight.
\<close>

theorem getDashboardStats_todayRevenue_two_payments:
  "setHours0 0 1704103200000 = 1704067200000 \<and>
   nextDate (setHours0 0 1704103200000) = 1704153600000 \<and>
   map t_createdAt (transactions_table two_payments_today) =
     [Some 1704099600000, Some 1704101400000] \<and>
   map t_total (transactions_table two_payments_today) = [2000, 3500] \<and>
   todayRevenue (getDashboardStats 0 1704103200000 ''A'' two_payments_today) = 0"
  by (simp add: setHours0_def nextDate_def two_payments_today_def payment_def shop_def
      getDashboardStats_def Let_def)

section \<open>Rows addressed by id\<close>

lemma first_row_filter: "first_row (filter P xs) = find P xs"
  by (induction xs) (simp_all add: first_row_def)

lemma find_filter_keep:
  assumes "\<And>x. P x \<Longrightarrow> Q x"
  shows "find P (filter Q xs) = find P xs"
  using assms by (induction xs) auto

lemma find_filter_drop:
  assumes "\<And>x. P x \<Longrightarrow> \<not> Q x"
  shows "find P (filter Q xs) = None"
  using assms by (induction xs) auto

lemma find_map_update:
  assumes "\<And>x. P (f x) = P x"
  shows "find P (map f xs) = map_option f (find P xs)"
  using assms by (induction xs) auto

lemma map_update_absent:
  assumes "find P xs = None"
  shows "map (\<lambda>r. if P r then f r else r) xs = xs"
  using assms by (induction xs) (auto split: if_splits)

lemma filter_other_map_update:
  assumes "\<And>x. P (f x) = P x"
  shows "filter (\<lambda>r. \<not> P r) (map (\<lambda>r. if P r then f r else r) xs) = filter (\<lambda>r. \<not> P r) xs"
  using assms by (induction xs) auto

lemma queue_entry_removeFromQueue:
  "queue_entry ident' (removeFromQueue ident db) =
     (if ident' = ident then None else queue_entry ident' db)"
proof (cases "ident' = ident")
  case True
  have "find (\<lambda>r. q_id r = ident) (filter (\<lambda>r. q_id r \<noteq> ident) (queue_table db)) = None"
    by (rule find_filter_drop) simp
  with True show ?thesis
    by (simp add: queue_entry_def removeFromQueue_def)
next
  case False
  then have "find (\<lambda>r. q_id r = ident') (filter (\<lambda>r. q_id r \<noteq> ident) (queue_table db)) =
               find (\<lambda>r. q_id r = ident') (queue_table db)"
    by (intro find_filter_keep) simp
  with False show ?thesis
    by (simp add: queue_entry_def removeFromQueue_def)
qed

text \<open>What \<^verbatim>\<open>PUT /api/queue/:id/position\<close> answers and leaves behind: a 500 and the
  database as it was when the id or the position does not fit the integer column, and
  otherwise the first updated row and the updated table.\<close>

lemma put_api_queue_position_cases:
  "put_api_queue_position now caller ident p db =
     (if in_int4 ident \<and> in_int4 p
      then (Json (find (\<lambda>r. q_id r = ident)
                    (map (\<lambda>r. if q_id r = ident
                               then r\<lparr>q_position := p, q_updatedAt := Some now\<rparr> else r)
                       (queue_table db))),
            db\<lparr>queue_table :=
                 map (\<lambda>r. if q_id r = ident
                           then r\<lparr>q_position := p, q_updatedAt := Some now\<rparr> else r)
                   (queue_table db)\<rparr>)
      else (Status500 ''Failed to update queue position'', db))"
  by (simp add: put_api_queue_position_def updateQueuePosition_def Let_def first_row_filter)

lemma find_moved_other:
  assumes ne: "ident' \<noteq> ident"
  shows "find (\<lambda>r. q_id r = ident')
           (map (\<lambda>r. if q_id r = ident
                      then r\<lparr>q_position := p, q_updatedAt := Some now\<rparr> else r) rows) =
         find (\<lambda>r. q_id r = ident') rows"
proof -
  let ?f = "\<lambda>r. if q_id r = ident then r\<lparr>q_position := p, q_updatedAt := Some now\<rparr> else r"
  have "find (\<lambda>r. q_id r = ident') (map ?f rows) =
          map_option ?f (find (\<lambda>r. q_id r = ident') rows)"
    by (rule find_map_update) simp
  moreover have "map_option ?f (find (\<lambda>r. q_id r = ident') rows) =
                   find (\<lambda>r. q_id r = ident') rows"
    using ne by (cases "find (\<lambda>r. q_id r = ident') rows")
      (auto dest: find_Some_iff[THEN iffD1])
  ultimately show ?thesis
    by simp
qed

lemma find_moved_same:
  "find (\<lambda>r. q_id r = ident)
     (map (\<lambda>r. if q_id r = ident
                then r\<lparr>q_position := p, q_updatedAt := Some now\<rparr> else r) rows) =
   map_option (\<lambda>r. r\<lparr>q_position := p, q_updatedAt := Some now\<rparr>)
     (find (\<lambda>r. q_id r = ident) rows)"
proof -
  let ?f = "\<lambda>r. if q_id r = ident then r\<lparr>q_position := p, q_updatedAt := Some now\<rparr> else r"
  have "find (\<lambda>r. q_id r = ident) (map ?f rows) =
          map_option ?f (find (\<lambda>r. q_id r = ident) rows)"
    by (rule find_map_update) simp
  moreover have "map_option ?f (find (\<lambda>r. q_id r = ident) rows) =
      map_option (\<lambda>r. r\<lparr>q_position := p, q_updatedAt := Some now\<rparr>)
        (find (\<lambda>r. q_id r = ident) rows)"
    by (cases "find (\<lambda>r. q_id r = ident) rows")
      (auto dest: find_Some_iff[THEN iffD1])
  ultimately show ?thesis
    by simp
qed

section \<open>Repositioning\<close>

text \<open>
  C7, as the claim states it, fails on each of its three parts. For an id that no entry
  has, \<^verbatim>\<open>PUT /api/queue/:id/position\<close> answers with an empty body instead of failing
  with NotFound. With three entries in line, position 99 is stored instead of failing
  with InvalidPosition. Moving the entry at position 3 to position 1 shifts nobody: the
  positions are then 1, 2 and 1. Called by shop \<open>B\<close> for an entry of shop \<open>A\<close>, the handler
  moves the entry instead of failing with NotFound.
\<close>

theorem put_api_queue_position_counterexample:
  "queue_entry 99 three_in_line = None \<and>
   put_api_queue_position 7 ''A'' 99 1 three_in_line = (Json None, three_in_line) \<and>
   length (live_entries ''A'' three_in_line) = 3 \<and>
   fst (put_api_queue_position 7 ''A'' 3 99 three_in_line) =
     Json (Some ((entry 3 ''A'' 99 ''waiting'')\<lparr>q_updatedAt := Some 7\<rparr>)) \<and>
   map q_position (queue_table (snd (put_api_queue_position 7 ''A'' 3 1 three_in_line))) =
     [1, 2, 1] \<and>
   q_userId (entry 3 ''A'' 3 ''waiting'') = ''A'' \<and>
   fst (put_api_queue_position 7 ''B'' 3 2 three_in_line) =
     Json (Some ((entry 3 ''A'' 2 ''waiting'')\<lparr>q_updatedAt := Some 7\<rparr>))"
  by (simp add: queue_entry_def three_in_line_def shop_with_queue_def entry_def
      put_api_queue_position_def updateQueuePosition_def first_row_def live_entries_def
      non_terminal_def shop_def in_int4_def)

text \<open>
  C7, amended. \<^verbatim>\<open>PUT /api/queue/:id/position\<close> never fails with NotFound or with
  InvalidPosition. Its one failure is the answer 500 when the id or the requested
  position does not fit the 32-bit integer column, and then the database is as it was.
  Otherwise, for an id that no entry has it answers with no row and leaves the database
  as it is; for an id that an entry has it writes the requested position, whatever its
  value in that range, and the time of the update on that entry and answers with the
  updated entry. In every case the entry found under any other id is unchanged: no other
  position shifts.
\<close>

theorem put_api_queue_position_fails_only_out_of_range:
  "(\<not> (in_int4 ident \<and> in_int4 p) \<longrightarrow>
      put_api_queue_position now caller ident p db =
        (Status500 ''Failed to update queue position'', db)) \<and>
   (in_int4 ident \<and> in_int4 p \<and> queue_entry ident db = None \<longrightarrow>
      put_api_queue_position now caller ident p db = (Json None, db)) \<and>
   (\<forall>r. in_int4 ident \<and> in_int4 p \<and> queue_entry ident db = Some r \<longrightarrow>
      fst (put_api_queue_position now caller ident p db) =
        Json (Some (r\<lparr>q_position := p, q_updatedAt := Some now\<rparr>)) \<and>
      queue_entry ident (snd (put_api_queue_position now caller ident p db)) =
        Some (r\<lparr>q_position := p, q_updatedAt := Some now\<rparr>)) \<and>
   (ident' \<noteq> ident \<longrightarrow>
      queue_entry ident' (snd (put_api_queue_position now caller ident p db)) =
        queue_entry ident' db)"
proof -
  have refused: "\<not> (in_int4 ident \<and> in_int4 p) \<longrightarrow>
      put_api_queue_position now caller ident p db =
        (Status500 ''Failed to update queue position'', db)"
    by (simp add: put_api_queue_position_cases)
  have absent: "in_int4 ident \<and> in_int4 p \<and> queue_entry ident db = None \<longrightarrow>
      put_api_queue_position now caller ident p db = (Json None, db)"
    by (simp add: put_api_queue_position_cases find_moved_same queue_entry_def
        map_update_absent)
  have present: "\<forall>r. in_int4 ident \<and> in_int4 p \<and> queue_entry ident db = Some r \<longrightarrow>
      fst (put_api_queue_position now caller ident p db) =
        Json (Some (r\<lparr>q_position := p, q_updatedAt := Some now\<rparr>)) \<and>
      queue_entry ident (snd (put_api_queue_position now caller ident p db)) =
        Some (r\<lparr>q_position := p, q_updatedAt := Some now\<rparr>)"
    by (simp add: put_api_queue_position_cases find_moved_same queue_entry_def)
  have other: "ident' \<noteq> ident \<longrightarrow>
      queue_entry ident' (snd (put_api_queue_position now caller ident p db)) =
        queue_entry ident' db"
    by (simp add: put_api_queue_position_cases find_moved_other queue_entry_def)
  from refused absent present other show ?thesis
    by blast
qed

theorem put_api_queue_position_fails_only_out_of_range_witness:
  "\<not> in_int4 2147483648 \<and>
   put_api_queue_position 7 ''A'' 3 2147483648 three_in_line =
     (Status500 ''Failed to update queue position'', three_in_line) \<and>
   in_int4 99 \<and> in_int4 1 \<and> in_int4 3 \<and>
   queue_entry 99 three_in_line = None \<and>
   put_api_queue_position 7 ''A'' 99 1 three_in_line = (Json None, three_in_line) \<and>
   queue_entry 3 three_in_line = Some (entry 3 ''A'' 3 ''waiting'') \<and>
   fst (put_api_queue_position 7 ''A'' 3 99 three_in_line) =
     Json (Some ((entry 3 ''A'' 3 ''waiting'')\<lparr>q_position := 99, q_updatedAt := Some 7\<rparr>)) \<and>
   (2::int) \<noteq> 3 \<and>
   queue_entry 2 (snd (put_api_queue_position 7 ''A'' 3 99 three_in_line)) =
     Some (entry 2 ''A'' 2 ''waiting'')"
proof -
  have big: "\<not> in_int4 2147483648"
    by (simp add: in_int4_def)
  have small: "in_int4 99" "in_int4 1" "in_int4 3"
    by (simp_all add: in_int4_def)
  have none: "queue_entry 99 three_in_line = None"
    by (simp add: queue_entry_def three_in_line_def shop_with_queue_def entry_def)
  have third: "queue_entry 3 three_in_line = Some (entry 3 ''A'' 3 ''waiting'')"
    by (simp add: queue_entry_def three_in_line_def shop_with_queue_def entry_def)
  have second: "queue_entry 2 three_in_line = Some (entry 2 ''A'' 2 ''waiting'')"
    by (simp add: queue_entry_def three_in_line_def shop_with_queue_def entry_def)
  from put_api_queue_position_fails_only_out_of_range [of 3 2147483648 7 "''A''" three_in_line 0]
    big
  have refused: "put_api_queue_position 7 ''A'' 3 2147483648 three_in_line =
     (Status500 ''Failed to update queue position'', three_in_line)"
    by blast
  from put_api_queue_position_fails_only_out_of_range [of 99 1 7 "''A''" three_in_line 0]
    small none
  have unknown: "put_api_queue_position 7 ''A'' 99 1 three_in_line = (Json None, three_in_line)"
    by blast
  from put_api_queue_position_fails_only_out_of_range [of 3 99 7 "''A''" three_in_line 2]
    small third
  have moved: "fst (put_api_queue_position 7 ''A'' 3 99 three_in_line) =
     Json (Some ((entry 3 ''A'' 3 ''waiting'')\<lparr>q_position := 99, q_updatedAt := Some 7\<rparr>))"
    by blast
  from put_api_queue_position_fails_only_out_of_range [of 3 99 7 "''A''" three_in_line 2]
    second
  have kept: "queue_entry 2 (snd (put_api_queue_position 7 ''A'' 3 99 three_in_line)) =
     Some (entry 2 ''A'' 2 ''waiting'')"
    by simp
  from big refused small none unknown third moved kept show ?thesis
    by (simp only: simp_thms)
qed

section \<open>Removal from the queue\<close>

text \<open>
  C6, as the claim states it, fails: with three entries in line at positions 1, 2 and 3,
  removing the entry at position 2 leaves the entry at position 3 where it was; the
  claim asks for it to move to position 2.
\<close>

theorem delete_api_queue_no_renumbering_counterexample:
  "queue_entry 2 three_in_line = Some (entry 2 ''A'' 2 ''waiting'') \<and>
   queue_entry 3 three_in_line = Some (entry 3 ''A'' 3 ''waiting'') \<and>
   fst (delete_api_queue ''A'' 2 three_in_line) = Json ''Removed from queue successfully'' \<and>
   queue_table (snd (delete_api_queue ''A'' 2 three_in_line)) =
     [entry 1 ''A'' 1 ''waiting'', entry 3 ''A'' 3 ''waiting'']"
  by (simp add: queue_entry_def three_in_line_def shop_with_queue_def entry_def
      delete_api_queue_def removeFromQueue_def)

text \<open>
  C6, amended. After \<^verbatim>\<open>DELETE /api/queue/:id\<close> no entry has the removed id, and the entry
  found under any other id is the one found there before, with all its fields: entries
  behind the removed one keep their position, nothing is decremented.
\<close>

theorem delete_api_queue_keeps_other_entries:
  "queue_entry ident (snd (delete_api_queue caller ident db)) = None \<and>
   (ident' \<noteq> ident \<longrightarrow>
      queue_entry ident' (snd (delete_api_queue caller ident db)) = queue_entry ident' db)"
  by (simp add: delete_api_queue_def queue_entry_removeFromQueue)

theorem delete_api_queue_keeps_other_entries_witness:
  "queue_entry 2 (snd (delete_api_queue ''A'' 2 three_in_line)) = None \<and>
   (3::int) \<noteq> 2 \<and>
   queue_entry 3 (snd (delete_api_queue ''A'' 2 three_in_line)) =
     Some (entry 3 ''A'' 3 ''waiting'')"
proof -
  have "queue_entry 3 three_in_line = Some (entry 3 ''A'' 3 ''waiting'')"
    by (simp add: queue_entry_def three_in_line_def shop_with_queue_def entry_def)
  with delete_api_queue_keeps_other_entries [of 2 "''A''" three_in_line 3] show ?thesis
    by simp
qed

section \<open>Status changes\<close>

text \<open>
  C5, as the claim states it, fails: a completed queue entry goes back to
  \<^verbatim>\<open>waiting\<close> and a cancelled appointment back to \<^verbatim>\<open>scheduled\<close>; neither pair is an edge
  of the state machines, and both requests succeed and change the entity.
\<close>

theorem status_change_counterexample:
  "queue_entry 1 (shop_with_queue [entry 1 ''A'' 1 ''completed'']) =
     Some (entry 1 ''A'' 1 ''completed'') \<and>
   put_api_queue_status 7 ''A'' 1 ''waiting'' (shop_with_queue [entry 1 ''A'' 1 ''completed'']) =
     (Json (Some ((entry 1 ''A'' 1 ''waiting'')\<lparr>q_updatedAt := Some 7\<rparr>)),
      shop_with_queue [(entry 1 ''A'' 1 ''waiting'')\<lparr>q_updatedAt := Some 7\<rparr>]) \<and>
   appointment_entry 1 (shop_with_appointments [haircut_at_nine 1 ''cancelled'']) =
     Some (haircut_at_nine 1 ''cancelled'') \<and>
   put_api_appointments 7 ''A'' 1 (status_only ''scheduled'')
       (shop_with_appointments [haircut_at_nine 1 ''cancelled'']) =
     (Json (Some ((haircut_at_nine 1 ''scheduled'')\<lparr>a_updatedAt := Some 7\<rparr>)),
      shop_with_appointments [(haircut_at_nine 1 ''scheduled'')\<lparr>a_updatedAt := Some 7\<rparr>])"
  by (simp add: queue_entry_def appointment_entry_def shop_with_queue_def
      shop_with_appointments_def entry_def haircut_at_nine_def put_api_queue_status_def
      updateQueueStatus_def put_api_appointments_def updateAppointment_def first_row_def
      set_appointment_def status_only_def assign_def assign_nullable_def update_fk_ok_def
      insertAppointmentSchema_partial_parse_def z_date_optional_def)

lemma queue_entry_updateQueueStatus_same:
  "queue_entry ident (snd (updateQueueStatus now ident st db)) =
     map_option (\<lambda>r. r\<lparr>q_status := Some st, q_updatedAt := Some now\<rparr>) (queue_entry ident db)"
proof -
  let ?f = "\<lambda>r. if q_id r = ident then r\<lparr>q_status := Some st, q_updatedAt := Some now\<rparr> else r"
  have "find (\<lambda>r. q_id r = ident) (map ?f (queue_table db)) =
          map_option ?f (find (\<lambda>r. q_id r = ident) (queue_table db))"
    by (rule find_map_update) simp
  moreover have "map_option ?f (find (\<lambda>r. q_id r = ident) (queue_table db)) =
      map_option (\<lambda>r. r\<lparr>q_status := Some st, q_updatedAt := Some now\<rparr>)
        (find (\<lambda>r. q_id r = ident) (queue_table db))"
    by (cases "find (\<lambda>r. q_id r = ident) (queue_table db)")
      (auto dest: find_Some_iff[THEN iffD1])
  ultimately show ?thesis
    by (simp add: queue_entry_def updateQueueStatus_def Let_def)
qed

lemma fst_updateQueueStatus:
  "fst (updateQueueStatus now ident st db) =
     queue_entry ident (snd (updateQueueStatus now ident st db))"
  by (simp add: updateQueueStatus_def Let_def first_row_filter queue_entry_def)

lemma insertAppointmentSchema_partial_parse_status_only:
  "insertAppointmentSchema_partial_parse (status_only st) =
     Inr \<lparr>pa_customerId = None, pa_serviceId = None, pa_barber = Undefined,
          pa_startTime = None, pa_endTime = None, pa_status = Value st,
          pa_notes = Undefined\<rparr>"
  by (simp add: insertAppointmentSchema_partial_parse_def z_date_optional_def status_only_def)

lemma put_api_appointments_status_only:
  "put_api_appointments now caller ident (status_only st) db =
     (Json (map_option (\<lambda>a. a\<lparr>a_status := Some st, a_updatedAt := Some now\<rparr>)
              (appointment_entry ident db)),
      db\<lparr>appointments_table :=
           map (\<lambda>r. if a_id r = ident then r\<lparr>a_status := Some st, a_updatedAt := Some now\<rparr>
                     else r) (appointments_table db)\<rparr>)"
proof -
  let ?patch = "\<lparr>pa_customerId = None, pa_serviceId = None, pa_barber = Undefined,
                 pa_startTime = None, pa_endTime = None, pa_status = Value st,
                 pa_notes = Undefined\<rparr>"
  let ?f = "\<lambda>r. if a_id r = ident then r\<lparr>a_status := Some st, a_updatedAt := Some now\<rparr> else r"
  have fk: "update_fk_ok ?patch db"
    by (simp add: update_fk_ok_def)
  have "find (\<lambda>r. a_id r = ident) (map ?f (appointments_table db)) =
          map_option ?f (find (\<lambda>r. a_id r = ident) (appointments_table db))"
    by (rule find_map_update) simp
  moreover have "map_option ?f (find (\<lambda>r. a_id r = ident) (appointments_table db)) =
      map_option (\<lambda>a. a\<lparr>a_status := Some st, a_updatedAt := Some now\<rparr>)
        (find (\<lambda>r. a_id r = ident) (appointments_table db))"
    by (cases "find (\<lambda>r. a_id r = ident) (appointments_table db)")
      (auto dest: find_Some_iff[THEN iffD1])
  moreover have "(\<lambda>r. if a_id r = ident then set_appointment now ?patch r else r) = ?f"
    by (rule ext) (simp add: set_appointment_def assign_def assign_nullable_def)
  ultimately show ?thesis
    using fk
    by (simp add: put_api_appointments_def insertAppointmentSchema_partial_parse_status_only
        updateAppointment_def Let_def first_row_filter appointment_entry_def)
qed

text \<open>
  C5, amended. No status-change request fails with InvalidTransition, and none is
  checked against the current status. \<^verbatim>\<open>PUT /api/queue/:id/status\<close> writes the requested
  status, whatever it is, on the entry with that id and answers with the updated entry; 
  \<^verbatim>\<open>PUT /api/appointments/:id\<close> with a patch that carries a status does the same for the
  appointment with that id.
\<close>

theorem status_change_is_unconditional:
  "(\<forall>r. queue_entry ident db = Some r \<longrightarrow>
      fst (put_api_queue_status now caller ident status db) =
        Json (Some (r\<lparr>q_status := Some status, q_updatedAt := Some now\<rparr>)) \<and>
      queue_entry ident (snd (put_api_queue_status now caller ident status db)) =
        Some (r\<lparr>q_status := Some status, q_updatedAt := Some now\<rparr>)) \<and>
   (\<forall>a. appointment_entry ident db = Some a \<longrightarrow>
      fst (put_api_appointments now caller ident (status_only status) db) =
        Json (Some (a\<lparr>a_status := Some status, a_updatedAt := Some now\<rparr>)) \<and>
      appointment_entry ident (snd (put_api_appointments now caller ident (status_only status) db)) =
        Some (a\<lparr>a_status := Some status, a_updatedAt := Some now\<rparr>))"
proof -
  have route: "put_api_queue_status now caller ident status db =
      (Json (fst (updateQueueStatus now ident status db)),
       snd (updateQueueStatus now ident status db))"
    by (simp add: put_api_queue_status_def split: prod.splits)
  have q: "\<forall>r. queue_entry ident db = Some r \<longrightarrow>
      fst (put_api_queue_status now caller ident status db) =
        Json (Some (r\<lparr>q_status := Some status, q_updatedAt := Some now\<rparr>)) \<and>
      queue_entry ident (snd (put_api_queue_status now caller ident status db)) =
        Some (r\<lparr>q_status := Some status, q_updatedAt := Some now\<rparr>)"
    by (simp add: route fst_updateQueueStatus queue_entry_updateQueueStatus_same)
  let ?f = "\<lambda>r. if a_id r = ident then r\<lparr>a_status := Some status, a_updatedAt := Some now\<rparr> else r"
  have after: "appointment_entry ident
         (db\<lparr>appointments_table := map ?f (appointments_table db)\<rparr>) =
       map_option (\<lambda>a. a\<lparr>a_status := Some status, a_updatedAt := Some now\<rparr>)
         (appointment_entry ident db)"
  proof -
    have "find (\<lambda>r. a_id r = ident) (map ?f (appointments_table db)) =
          map_option ?f (find (\<lambda>r. a_id r = ident) (appointments_table db))"
      by (rule find_map_update) simp
    moreover have "map_option ?f (find (\<lambda>r. a_id r = ident) (appointments_table db)) =
      map_option (\<lambda>a. a\<lparr>a_status := Some status, a_updatedAt := Some now\<rparr>)
        (find (\<lambda>r. a_id r = ident) (appointments_table db))"
      by (cases "find (\<lambda>r. a_id r = ident) (appointments_table db)")
        (auto dest: find_Some_iff[THEN iffD1])
    ultimately show ?thesis
      by (simp add: appointment_entry_def)
  qed
  have a: "\<forall>a. appointment_entry ident db = Some a \<longrightarrow>
      fst (put_api_appointments now caller ident (status_only status) db) =
        Json (Some (a\<lparr>a_status := Some status, a_updatedAt := Some now\<rparr>)) \<and>
      appointment_entry ident (snd (put_api_appointments now caller ident (status_only status) db)) =
        Some (a\<lparr>a_status := Some status, a_updatedAt := Some now\<rparr>)"
    by (simp add: put_api_appointments_status_only after)
  from q a show ?thesis
    by blast
qed

theorem status_change_is_unconditional_witness:
  "queue_entry 1 (shop_with_queue [entry 1 ''A'' 1 ''completed'']) =
     Some (entry 1 ''A'' 1 ''completed'') \<and>
   fst (put_api_queue_status 7 ''A'' 1 ''waiting''
          (shop_with_queue [entry 1 ''A'' 1 ''completed''])) =
     Json (Some ((entry 1 ''A'' 1 ''completed'')
                   \<lparr>q_status := Some ''waiting'', q_updatedAt := Some 7\<rparr>)) \<and>
   appointment_entry 1 (shop_with_appointments [haircut_at_nine 1 ''completed'']) =
     Some (haircut_at_nine 1 ''completed'') \<and>
   fst (put_api_appointments 7 ''A'' 1 (status_only ''in_progress'')
          (shop_with_appointments [haircut_at_nine 1 ''completed''])) =
     Json (Some ((haircut_at_nine 1 ''completed'')
                   \<lparr>a_status := Some ''in_progress'', a_updatedAt := Some 7\<rparr>))"
proof -
  have q: "queue_entry 1 (shop_with_queue [entry 1 ''A'' 1 ''completed'']) =
             Some (entry 1 ''A'' 1 ''completed'')"
    by (simp add: queue_entry_def shop_with_queue_def entry_def)
  have a: "appointment_entry 1 (shop_with_appointments [haircut_at_nine 1 ''completed'']) =
             Some (haircut_at_nine 1 ''completed'')"
    by (simp add: appointment_entry_def shop_with_appointments_def haircut_at_nine_def)
  from status_change_is_unconditional
         [of 1 "shop_with_queue [entry 1 ''A'' 1 ''completed'']" 7 "''A''" "''waiting''"]
       status_change_is_unconditional
         [of 1 "shop_with_appointments [haircut_at_nine 1 ''completed'']" 7 "''A''"
            "''in_progress''"]
       q a
  show ?thesis
    by simp
qed

section \<open>Tenant scoping\<close>

text \<open>
  C2, as the claim states it, fails. All three queue entries and the appointment belong to
  shop \<open>A\<close>. Called by shop \<open>B\<close>, the handlers move, complete and delete the first entry
  of \<open>A\<close>, and cancel and delete the appointment of \<open>A\<close>. Shop \<open>A\<close> can also admit a walk-in
  for customer 2 and service 3, which belong to shop \<open>B\<close>: a cross-tenant reference.
\<close>

theorem tenant_isolation_counterexample:
  "map q_userId (queue_table three_in_line) = [''A'', ''A'', ''A''] \<and>
   queue_table (snd (put_api_queue_position 7 ''B'' 1 5 three_in_line)) =
     [(entry 1 ''A'' 5 ''waiting'')\<lparr>q_updatedAt := Some 7\<rparr>, entry 2 ''A'' 2 ''waiting'',
      entry 3 ''A'' 3 ''waiting''] \<and>
   queue_table (snd (put_api_queue_status 7 ''B'' 1 ''completed'' three_in_line)) =
     [(entry 1 ''A'' 1 ''completed'')\<lparr>q_updatedAt := Some 7\<rparr>, entry 2 ''A'' 2 ''waiting'',
      entry 3 ''A'' 3 ''waiting''] \<and>
   queue_table (snd (delete_api_queue ''B'' 1 three_in_line)) =
     [entry 2 ''A'' 2 ''waiting'', entry 3 ''A'' 3 ''waiting''] \<and>
   appointments_table (shop_with_appointments [haircut_at_nine 1 ''scheduled'']) =
     [haircut_at_nine 1 ''scheduled''] \<and>
   a_userId (haircut_at_nine 1 ''scheduled'') = ''A'' \<and>
   appointments_table (snd (put_api_appointments 7 ''B'' 1 (status_only ''cancelled'')
       (shop_with_appointments [haircut_at_nine 1 ''scheduled'']))) =
     [(haircut_at_nine 1 ''cancelled'')\<lparr>a_updatedAt := Some 7\<rparr>] \<and>
   appointments_table (snd (delete_api_appointments ''B'' 1
       (shop_with_appointments [haircut_at_nine 1 ''scheduled'']))) = [] \<and>
   map_option c_userId (customer_entry 2 shop) = Some ''B'' \<and>
   map_option s_userId (service_entry 3 shop) = Some ''B'' \<and>
   fst (post_api_queue 0 ''A'' (walk_in 2 3 1) shop) =
     Json ((entry 1 ''A'' 1 ''waiting'')\<lparr>q_customerId := 2, q_serviceId := 3\<rparr>)"
  by (simp add: three_in_line_def shop_with_queue_def shop_with_appointments_def entry_def
      haircut_at_nine_def put_api_queue_position_def updateQueuePosition_def
      put_api_queue_status_def updateQueueStatus_def delete_api_queue_def removeFromQueue_def
      put_api_appointments_def updateAppointment_def delete_api_appointments_def
      deleteAppointment_def appointment_referenced_def set_appointment_def status_only_def
      assign_def assign_nullable_def update_fk_ok_def first_row_def shop_def
      customer_entry_def service_entry_def in_int4_def queue_values_in_range_def
      insertAppointmentSchema_partial_parse_def z_date_optional_def
      post_api_queue_def addToQueue_def queue_fk_ok_def walk_in_def with_default_def Let_def)

lemma map_owner_update:
  assumes "\<And>x. g (f x) = g x"
  shows "map g (map (\<lambda>r. if P r then f r else r) xs) = map g xs"
  using assms by (induction xs) auto

lemma a_userId_set_appointment: "a_userId (set_appointment now patch r) = a_userId r"
  by (simp add: set_appointment_def)

lemma a_id_set_appointment: "a_id (set_appointment now patch r) = a_id r"
  by (simp add: set_appointment_def)

lemma queue_after_position:
  "queue_table (snd (put_api_queue_position now caller ident p db)) = queue_table db \<or>
   queue_table (snd (put_api_queue_position now caller ident p db)) =
     map (\<lambda>r. if q_id r = ident then r\<lparr>q_position := p, q_updatedAt := Some now\<rparr> else r)
       (queue_table db)"
  by (simp add: put_api_queue_position_cases)

lemma queue_after_status:
  "queue_table (snd (put_api_queue_status now caller ident st db)) =
     map (\<lambda>r. if q_id r = ident then r\<lparr>q_status := Some st, q_updatedAt := Some now\<rparr> else r)
       (queue_table db)"
  by (simp add: put_api_queue_status_def updateQueueStatus_def Let_def)

lemma queue_after_delete:
  "queue_table (snd (delete_api_queue caller ident db)) =
     filter (\<lambda>r. q_id r \<noteq> ident) (queue_table db)"
  by (simp add: delete_api_queue_def removeFromQueue_def)

lemma appointments_after_put:
  "appointments_table (snd (put_api_appointments now caller ident patch db)) = appointments_table db \<or>
   (\<exists>parsed. appointments_table (snd (put_api_appointments now caller ident patch db)) =
      map (\<lambda>r. if a_id r = ident then set_appointment now parsed r else r)
        (appointments_table db))"
  by (auto simp: put_api_appointments_def updateAppointment_def Let_def split: sum.splits)

lemma appointments_after_delete:
  "appointments_table (snd (delete_api_appointments caller ident db)) = appointments_table db \<or>
   appointments_table (snd (delete_api_appointments caller ident db)) =
     filter (\<lambda>r. a_id r \<noteq> ident) (appointments_table db)"
  by (simp add: delete_api_appointments_def deleteAppointment_def)

lemma others_position:
  "filter (\<lambda>r. q_id r \<noteq> ident) (queue_table (snd (put_api_queue_position now caller ident p db))) =
   filter (\<lambda>r. q_id r \<noteq> ident) (queue_table db)"
proof -
  have "filter (\<lambda>r. \<not> q_id r = ident)
          (map (\<lambda>r. if q_id r = ident then r\<lparr>q_position := p, q_updatedAt := Some now\<rparr>
                    else r) (queue_table db)) =
        filter (\<lambda>r. \<not> q_id r = ident) (queue_table db)"
    by (rule filter_other_map_update) simp
  with queue_after_position [of now caller ident p db] show ?thesis
    by auto
qed

lemma others_status:
  "filter (\<lambda>r. q_id r \<noteq> ident) (queue_table (snd (put_api_queue_status now caller ident st db))) =
   filter (\<lambda>r. q_id r \<noteq> ident) (queue_table db)"
  unfolding queue_after_status by (rule filter_other_map_update) simp

lemma others_delete:
  "filter (\<lambda>r. q_id r \<noteq> ident) (queue_table (snd (delete_api_queue caller ident db))) =
   filter (\<lambda>r. q_id r \<noteq> ident) (queue_table db)"
  by (simp add: queue_after_delete)

lemma others_put_appointments:
  "filter (\<lambda>r. a_id r \<noteq> ident)
     (appointments_table (snd (put_api_appointments now caller ident patch db))) =
   filter (\<lambda>r. a_id r \<noteq> ident) (appointments_table db)"
proof -
  have "filter (\<lambda>r. \<not> a_id r = ident)
          (map (\<lambda>r. if a_id r = ident then set_appointment now parsed r else r)
             (appointments_table db)) =
        filter (\<lambda>r. \<not> a_id r = ident) (appointments_table db)" for parsed
    by (rule filter_other_map_update) (simp add: a_id_set_appointment)
  with appointments_after_put [of now caller ident patch db] show ?thesis
    by auto
qed

lemma others_delete_appointments:
  "filter (\<lambda>r. a_id r \<noteq> ident)
     (appointments_table (snd (delete_api_appointments caller ident db))) =
   filter (\<lambda>r. a_id r \<noteq> ident) (appointments_table db)"
  using appointments_after_delete [of caller ident db] by auto

lemma owners_position:
  "map q_userId (queue_table (snd (put_api_queue_position now caller ident p db))) =
   map q_userId (queue_table db)"
proof -
  have "map q_userId
          (map (\<lambda>r. if q_id r = ident then r\<lparr>q_position := p, q_updatedAt := Some now\<rparr>
                    else r) (queue_table db)) =
        map q_userId (queue_table db)"
    by (rule map_owner_update) simp
  with queue_after_position [of now caller ident p db] show ?thesis
    by auto
qed

lemma owners_status:
  "map q_userId (queue_table (snd (put_api_queue_status now caller ident st db))) =
   map q_userId (queue_table db)"
  unfolding queue_after_status by (rule map_owner_update) simp

lemma owners_put_appointments:
  "map a_userId (appointments_table (snd (put_api_appointments now caller ident patch db))) =
   map a_userId (appointments_table db)"
proof -
  have "map a_userId (map (\<lambda>r. if a_id r = ident then set_appointment now parsed r else r)
          (appointments_table db)) = map a_userId (appointments_table db)" for parsed
    by (rule map_owner_update) (simp add: a_userId_set_appointment)
  with appointments_after_put [of now caller ident patch db] show ?thesis
    by auto
qed

lemma getQueue_owner: "\<forall>r\<in>set (getQueue userId db). q_userId r = userId"
  by (simp add: getQueue_def)

lemma handlers_do_not_read_caller:
  "put_api_queue_position now caller ident p db = put_api_queue_position now caller' ident p db"
  "put_api_queue_status now caller ident st db = put_api_queue_status now caller' ident st db"
  "delete_api_queue caller ident db = delete_api_queue caller' ident db"
  "put_api_appointments now caller ident patch db = put_api_appointments now caller' ident patch db"
  "delete_api_appointments caller ident db = delete_api_appointments caller' ident db"
  by (simp_all add: put_api_queue_position_def put_api_queue_status_def delete_api_queue_def
      put_api_appointments_def delete_api_appointments_def)

text \<open>
  C2, amended. The handlers that address a row by id do not read the caller: their
  result is the same for every caller, so the row is changed whichever tenant owns it.
  What they change is confined by the id alone: the rows with another id are the same
  before and after, in every table they write, and no update changes the owner of a
  row. The list read \<^verbatim>\<open>getQueue\<close> returns only rows owned by the tenant it is called for.
\<close>

theorem by_id_mutations_touch_only_that_id:
  "put_api_queue_position now caller ident p db =
     put_api_queue_position now caller' ident p db \<and>
   put_api_queue_status now caller ident st db =
     put_api_queue_status now caller' ident st db \<and>
   delete_api_queue caller ident db = delete_api_queue caller' ident db \<and>
   put_api_appointments now caller ident patch db =
     put_api_appointments now caller' ident patch db \<and>
   delete_api_appointments caller ident db = delete_api_appointments caller' ident db \<and>
   filter (\<lambda>r. q_id r \<noteq> ident)
       (queue_table (snd (put_api_queue_position now caller ident p db))) =
     filter (\<lambda>r. q_id r \<noteq> ident) (queue_table db) \<and>
   filter (\<lambda>r. q_id r \<noteq> ident)
       (queue_table (snd (put_api_queue_status now caller ident st db))) =
     filter (\<lambda>r. q_id r \<noteq> ident) (queue_table db) \<and>
   filter (\<lambda>r. q_id r \<noteq> ident) (queue_table (snd (delete_api_queue caller ident db))) =
     filter (\<lambda>r. q_id r \<noteq> ident) (queue_table db) \<and>
   filter (\<lambda>r. a_id r \<noteq> ident)
       (appointments_table (snd (put_api_appointments now caller ident patch db))) =
     filter (\<lambda>r. a_id r \<noteq> ident) (appointments_table db) \<and>
   filter (\<lambda>r. a_id r \<noteq> ident)
       (appointments_table (snd (delete_api_appointments caller ident db))) =
     filter (\<lambda>r. a_id r \<noteq> ident) (appointments_table db) \<and>
   map q_userId (queue_table (snd (put_api_queue_position now caller ident p db))) =
     map q_userId (queue_table db) \<and>
   map q_userId (queue_table (snd (put_api_queue_status now caller ident st db))) =
     map q_userId (queue_table db) \<and>
   map a_userId (appointments_table (snd (put_api_appointments now caller ident patch db))) =
     map a_userId (appointments_table db) \<and>
   (\<forall>r\<in>set (getQueue caller db). q_userId r = caller)"
  by (intro conjI others_position others_status others_delete others_put_appointments
      others_delete_appointments owners_position owners_status owners_put_appointments
      getQueue_owner)
    (rule handlers_do_not_read_caller)+

theorem by_id_mutations_touch_only_that_id_witness:
  "put_api_queue_position 7 ''B'' 1 5 two_queues = put_api_queue_position 7 ''A'' 1 5 two_queues \<and>
   filter (\<lambda>r. q_id r \<noteq> 1) (queue_table (snd (put_api_queue_position 7 ''B'' 1 5 two_queues))) =
     [entry 2 ''A'' 2 ''waiting'', entry 3 ''A'' 3 ''waiting'', entry 4 ''B'' 1 ''waiting''] \<and>
   map q_userId (queue_table (snd (put_api_queue_position 7 ''B'' 1 5 two_queues))) =
     [''A'', ''A'', ''A'', ''B''] \<and>
   entry 4 ''B'' 1 ''waiting'' \<in> set (getQueue ''B'' two_queues) \<and>
   q_userId (entry 4 ''B'' 1 ''waiting'') = ''B''"
proof -
  have rows: "queue_table two_queues =
      [entry 1 ''A'' 1 ''in_progress'', entry 2 ''A'' 2 ''waiting'',
       entry 3 ''A'' 3 ''waiting'', entry 4 ''B'' 1 ''waiting'']"
    by (simp add: two_queues_def shop_with_queue_def)
  have mine: "entry 4 ''B'' 1 ''waiting'' \<in> set (getQueue ''B'' two_queues)"
    by (simp add: getQueue_def rows) (simp add: entry_def)
  note facts = by_id_mutations_touch_only_that_id [of 7 "''B''" 1 5 two_queues "''A''"]
  from facts have same: "put_api_queue_position 7 ''B'' 1 5 two_queues =
      put_api_queue_position 7 ''A'' 1 5 two_queues"
    by blast
  from facts have others: "filter (\<lambda>r. q_id r \<noteq> 1)
        (queue_table (snd (put_api_queue_position 7 ''B'' 1 5 two_queues))) =
      filter (\<lambda>r. q_id r \<noteq> 1) (queue_table two_queues)"
    by blast
  from facts have owners: "map q_userId
        (queue_table (snd (put_api_queue_position 7 ''B'' 1 5 two_queues))) =
      map q_userId (queue_table two_queues)"
    by blast
  from facts have scoped: "\<forall>r\<in>set (getQueue ''B'' two_queues). q_userId r = ''B''"
    by blast
  have kept: "filter (\<lambda>r. q_id r \<noteq> 1) (queue_table two_queues) =
      [entry 2 ''A'' 2 ''waiting'', entry 3 ''A'' 3 ''waiting'', entry 4 ''B'' 1 ''waiting'']"
    by (simp add: rows) (simp add: entry_def)
  have owned: "map q_userId (queue_table two_queues) = [''A'', ''A'', ''A'', ''B'']"
    by (simp add: rows) (simp add: entry_def)
  from scoped mine have "q_userId (entry 4 ''B'' 1 ''waiting'') = ''B''"
    by blast
  with same others owners kept owned mine show ?thesis
    by (simp only: simp_thms)
qed

section \<open>Booking an appointment\<close>

text \<open>
  C8, as the claim states it, fails. The Haircut of shop \<open>A\<close> lasts 30 minutes. Called with
  a booking for it that starts at 09:00 and ends at 08:00, \<^verbatim>\<open>createAppointment\<close> persists
  the booking as it is: the stored end time lies an hour before the stored start time.
\<close>

theorem createAppointment_end_time_counterexample:
  "map_option s_duration (service_entry 1 shop) = Some 30 \<and>
   createAppointment 0 (booking 1704099600000 1704096000000) ''A'' shop =
     Inr ((haircut_at_nine 1 ''scheduled'')\<lparr>a_endTime := 1704096000000\<rparr>,
          shop_with_appointments [(haircut_at_nine 1 ''scheduled'')\<lparr>a_endTime := 1704096000000\<rparr>]) \<and>
   a_endTime ((haircut_at_nine 1 ''scheduled'')\<lparr>a_endTime := 1704096000000\<rparr>) -
     a_startTime ((haircut_at_nine 1 ''scheduled'')\<lparr>a_endTime := 1704096000000\<rparr>) = - 3600000"
  by (simp add: shop_def service_entry_def createAppointment_def appointment_fk_ok_def
      booking_def haircut_at_nine_def shop_with_appointments_def with_default_def in_int4_def
      Let_def)

text \<open>
  Through \<^verbatim>\<open>POST /api/appointments\<close> nothing is persisted: the schema rejects every JSON
  body, since the body must carry the two times and cannot carry them as dates.
\<close>

lemma z_date_rejects: "z_date v = Inl ZodError"
  by (cases v) (simp_all add: z_date_def)

lemma post_api_appointments_rejects_every_body:
  "post_api_appointments now caller body db = (Status500 ''Failed to create appointment'', db)"
proof -
  have "insertAppointmentSchema_parse body = Inl ZodError"
    by (simp add: insertAppointmentSchema_parse_def z_date_rejects split: option.splits)
  then show ?thesis
    by (simp add: post_api_appointments_def)
qed

text \<open>
  The derivation of the end time lives in the booking form only. When the start time
  changes and the chosen service resolves, the handler writes into the end-time field
  the start time plus the duration, shifted by the browser's zone offset, since the
  start is read as local time and the end is written in UTC.
\<close>

lemma handleStartTimeChange_endTime:
  assumes "find (\<lambda>s. s_id s = f_serviceId form) ss = Some s"
  shows "f_endTime (handleStartTimeChange tz False (Some ss) form startTime) =
           Some (startTime + s_duration s - tz)"
proof -
  have "((startTime - tz) * 60000 + s_duration s * 60000) div 60000 =
          startTime + s_duration s - tz"
    by simp
  with assms show ?thesis
    by (simp add: handleStartTimeChange_def Let_def Date_of_local_def toISOString_slice16_def)
qed

text \<open>
  C8, amended. For every booking whose tenant, customer and service resolve (their ids
  fitting the integer columns), \<^verbatim>\<open>createAppointment\<close> persists the start time and the end time it is given as they are;
  the stored \<open>endTime - startTime\<close> is the caller's, and it is the service's duration only
  if the caller passed it so. The storage derives nothing from the service.
\<close>

theorem createAppointment_times_verbatim:
  assumes "userId \<in> set (users_table db)"
    and "ia_customerId appointment \<in> set (map c_id (customers_table db))"
    and "ia_serviceId appointment \<in> set (map s_id (services_table db))"
    and "in_int4 (ia_customerId appointment) \<and> in_int4 (ia_serviceId appointment)"
  shows "\<exists>row. createAppointment now appointment userId db =
            Inr (row, db\<lparr>appointments_table := appointments_table db @ [row],
                          appointments_id_seq := appointments_id_seq db + 1\<rparr>) \<and>
          a_startTime row = ia_startTime appointment \<and>
          a_endTime row = ia_endTime appointment \<and>
          a_endTime row - a_startTime row = ia_endTime appointment - ia_startTime appointment"
  using assms
  by (simp add: createAppointment_def appointment_fk_ok_def Let_def)

theorem createAppointment_times_verbatim_witness:
  "''A'' \<in> set (users_table shop) \<and>
   ia_customerId (booking 1704099600000 1704101400000) \<in> set (map c_id (customers_table shop)) \<and>
   ia_serviceId (booking 1704099600000 1704101400000) \<in> set (map s_id (services_table shop)) \<and>
   in_int4 (ia_customerId (booking 1704099600000 1704101400000)) \<and>
   in_int4 (ia_serviceId (booking 1704099600000 1704101400000)) \<and>
   (\<exists>row. createAppointment 0 (booking 1704099600000 1704101400000) ''A'' shop =
            Inr (row, shop\<lparr>appointments_table := appointments_table shop @ [row],
                            appointments_id_seq := appointments_id_seq shop + 1\<rparr>) \<and>
          a_startTime row = 1704099600000 \<and>
          a_endTime row = 1704101400000 \<and>
          a_endTime row - a_startTime row = 1800000)"
proof -
  have u: "''A'' \<in> set (users_table shop)"
    by (simp add: shop_def)
  have c: "ia_customerId (booking 1704099600000 1704101400000) \<in>
             set (map c_id (customers_table shop))"
    by (simp add: shop_def booking_def)
  have s: "ia_serviceId (booking 1704099600000 1704101400000) \<in>
             set (map s_id (services_table shop))"
    by (simp add: shop_def booking_def)
  have r: "in_int4 (ia_customerId (booking 1704099600000 1704101400000)) \<and>
           in_int4 (ia_serviceId (booking 1704099600000 1704101400000))"
    by (simp add: in_int4_def booking_def)
  from createAppointment_times_verbatim [OF u c s r, of 0] u c s r show ?thesis
    by (simp add: booking_def)
qed

section \<open>The position of a walk-in\<close>




section \<open>The density invariant\<close>

text \<open>
  C1, as the claim states it, fails for each of the three operations. From the empty
  queue of shop \<open>A\<close>, a walk-in admitted with position 5 leaves the positions \<open>{5}\<close>.
  Three admissions at positions 1, 2 and 3 give a dense queue; removing the entry at
  position 2 leaves \<open>{1, 3}\<close>, and moving the entry at position 3 to position 1 leaves
  \<open>{1, 2}\<close> for three entries.
\<close>

theorem density_invariant_counterexample:
  "dense ''A'' shop \<and>
   post_api_queue 0 ''A'' (walk_in 1 1 5) shop =
     (Json (entry 1 ''A'' 5 ''waiting''), shop_with_queue [entry 1 ''A'' 5 ''waiting'']) \<and>
   \<not> dense ''A'' (shop_with_queue [entry 1 ''A'' 5 ''waiting'']) \<and>
   snd (post_api_queue 0 ''A'' (walk_in 1 1 3)
     (snd (post_api_queue 0 ''A'' (walk_in 1 1 2)
       (snd (post_api_queue 0 ''A'' (walk_in 1 1 1) shop))))) = three_in_line \<and>
   dense ''A'' three_in_line \<and>
   \<not> dense ''A'' (snd (delete_api_queue ''A'' 2 three_in_line)) \<and>
   \<not> dense ''A'' (snd (put_api_queue_position 7 ''A'' 3 1 three_in_line))"
proof -
  have empty: "dense ''A'' shop"
    by (simp add: dense_def live_entries_def shop_def)
  have admit: "post_api_queue 0 ''A'' (walk_in 1 1 5) shop =
     (Json (entry 1 ''A'' 5 ''waiting''), shop_with_queue [entry 1 ''A'' 5 ''waiting''])"
    by (simp add: post_api_queue_def addToQueue_def queue_fk_ok_def walk_in_def shop_def
        entry_def shop_with_queue_def with_default_def queue_values_in_range_def in_int4_def
        Let_def)
  have gap: "\<not> dense ''A'' (shop_with_queue [entry 1 ''A'' 5 ''waiting''])"
    by (simp add: dense_def live_entries_def non_terminal_def shop_with_queue_def entry_def)
  have reach: "snd (post_api_queue 0 ''A'' (walk_in 1 1 3)
     (snd (post_api_queue 0 ''A'' (walk_in 1 1 2)
       (snd (post_api_queue 0 ''A'' (walk_in 1 1 1) shop))))) = three_in_line"
    by (simp add: post_api_queue_def addToQueue_def queue_fk_ok_def walk_in_def shop_def
        entry_def shop_with_queue_def three_in_line_def with_default_def
        queue_values_in_range_def in_int4_def Let_def)
  have three: "dense ''A'' three_in_line"
    by (auto simp: dense_def live_entries_def non_terminal_def three_in_line_def
        shop_with_queue_def entry_def)
  have removed: "\<not> dense ''A'' (snd (delete_api_queue ''A'' 2 three_in_line))"
  proof
    assume "dense ''A'' (snd (delete_api_queue ''A'' 2 three_in_line))"
    then have eq: "{1, 3} = {1 .. 2::int}"
      by (simp add: dense_def live_entries_def non_terminal_def three_in_line_def
          shop_with_queue_def entry_def delete_api_queue_def removeFromQueue_def)
    have "(3::int) \<in> {1, 3}"
      by simp
    then have "(3::int) \<in> {1 .. 2}"
      by (simp only: eq)
    then show False
      by simp
  qed
  have moved: "\<not> dense ''A'' (snd (put_api_queue_position 7 ''A'' 3 1 three_in_line))"
  proof
    assume "dense ''A'' (snd (put_api_queue_position 7 ''A'' 3 1 three_in_line))"
    then have eq: "{1, 2, 1} = {1 .. 3::int}"
      by (simp add: dense_def live_entries_def non_terminal_def three_in_line_def
          shop_with_queue_def entry_def put_api_queue_position_def updateQueuePosition_def
          in_int4_def)
    have "(3::int) \<in> {1 .. 3}"
      by simp
    then have "(3::int) \<in> {1, 2, 1}"
      by (simp only: eq [symmetric])
    then show False
      by simp
  qed
  from empty admit gap reach three removed moved show ?thesis
    by (simp only: simp_thms)
qed

lemma interval_insert_iff:
  "insert p {1 .. int n} = {1 .. int (Suc n)} \<longleftrightarrow> p = int n + 1"
proof
  assume eq: "insert p {1 .. int n} = {1 .. int (Suc n)}"
  have "int n + 1 \<in> {1 .. int (Suc n)}"
    by simp
  with eq have "int n + 1 \<in> insert p {1 .. int n}"
    by simp
  then show "p = int n + 1"
    by simp
next
  assume "p = int n + 1"
  then show "insert p {1 .. int n} = {1 .. int (Suc n)}"
    by auto
qed

lemma interval_remove_iff:
  assumes "p \<in> {1 .. int n}"
  shows "{1 .. int n} - {p} = {1 .. int (n - 1)} \<longleftrightarrow> p = int n"
proof
  assume eq: "{1 .. int n} - {p} = {1 .. int (n - 1)}"
  from assms have n1: "1 \<le> n"
    by auto
  show "p = int n"
  proof (rule ccontr)
    assume "p \<noteq> int n"
    with n1 have "int n \<in> {1 .. int n} - {p}"
      by auto
    moreover from n1 have "int n \<notin> {1 .. int (n - 1)}"
      by auto
    ultimately show False
      using eq by blast
  qed
next
  assume "p = int n"
  with assms show "{1 .. int n} - {p} = {1 .. int (n - 1)}"
    by auto
qed

lemma interval_replace_iff:
  assumes "q \<in> {1 .. int n}"
  shows "insert p ({1 .. int n} - {q}) = {1 .. int n} \<longleftrightarrow> p = q"
proof
  assume eq: "insert p ({1 .. int n} - {q}) = {1 .. int n}"
  with assms have "q \<in> insert p ({1 .. int n} - {q})"
    by simp
  then show "p = q"
    by simp
next
  assume "p = q"
  with assms show "insert p ({1 .. int n} - {q}) = {1 .. int n}"
    by auto
qed

lemma dense_distinct:
  assumes "dense userId db"
  shows "distinct (map q_position (live_entries userId db))"
proof -
  let ?ps = "map q_position (live_entries userId db)"
  from assms have "card (set ?ps) = card {1 .. int (length ?ps)}"
    by (simp add: dense_def)
  then have "card (set ?ps) = length ?ps"
    by simp
  then show ?thesis
    by (rule card_distinct)
qed

lemma image_without_row:
  assumes k: "distinct (map k xs)" and g: "distinct (map g xs)" and r: "r \<in> set xs"
  shows "g ` {x \<in> set xs. k x \<noteq> k r} = g ` set xs - {g r}"
proof -
  from k have injk: "inj_on k (set xs)"
    by (simp add: distinct_map)
  from g have injg: "inj_on g (set xs)"
    by (simp add: distinct_map)
  from injk r have "{x \<in> set xs. k x \<noteq> k r} = set xs - {r}"
    by (auto dest: inj_onD)
  moreover from injg r have "g ` (set xs - {r}) = g ` set xs - {g r}"
    by (auto dest: inj_onD)
  ultimately show ?thesis
    by simp
qed

lemma length_without_row:
  assumes k: "distinct (map k xs)" and r: "r \<in> set xs"
  shows "length (filter (\<lambda>x. k x \<noteq> k r) xs) = length xs - 1"
proof -
  from k have injk: "inj_on k (set xs)" and d: "distinct xs"
    by (simp_all add: distinct_map)
  from injk r have "{x. k x = k r} \<inter> set xs = {r}"
    by (auto dest: inj_onD)
  with d have "length (filter (\<lambda>x. k x = k r) xs) = 1"
    by (simp add: distinct_length_filter)
  moreover have "length (filter (\<lambda>x. k x = k r) xs) + length (filter (\<lambda>x. \<not> k x = k r) xs) = length xs"
    by (rule sum_length_filter_compl)
  ultimately show ?thesis
    by simp
qed

lemma live_entries_addToQueue:
  assumes "addToQueue now queueItem userId db = Inr (row, db')"
  shows "live_entries userId db' =
           live_entries userId db @ (if non_terminal row then [row] else [])"
  using assms
  by (auto simp: addToQueue_def live_entries_def Let_def split: if_splits)

lemma live_entries_removeFromQueue:
  "live_entries userId (removeFromQueue ident db) =
     filter (\<lambda>x. q_id x \<noteq> ident) (live_entries userId db)"
  by (auto simp: removeFromQueue_def live_entries_def intro: filter_cong)

lemma live_entries_updateQueuePosition:
  assumes "updateQueuePosition now ident p db = Inr (x, db')"
  shows "live_entries userId db' =
     map (\<lambda>r. if q_id r = ident then r\<lparr>q_position := p, q_updatedAt := Some now\<rparr> else r)
       (live_entries userId db)"
proof -
  let ?f = "\<lambda>r. if q_id r = ident then r\<lparr>q_position := p, q_updatedAt := Some now\<rparr> else r"
  let ?P = "\<lambda>r. q_userId r = userId \<and> non_terminal r"
  from assms have after: "queue_table db' = map ?f (queue_table db)"
    by (auto simp: updateQueuePosition_def Let_def split: if_splits)
  have "?P \<circ> ?f = ?P"
    by (auto simp: non_terminal_def fun_eq_iff)
  then have "filter ?P (map ?f (queue_table db)) = map ?f (filter ?P (queue_table db))"
    by (simp add: filter_map)
  with after show ?thesis
    by (simp add: live_entries_def)
qed

lemma distinct_ids_live:
  "distinct (map q_id (queue_table db)) \<Longrightarrow> distinct (map q_id (live_entries userId db))"
  by (simp add: live_entries_def distinct_map_filter)

lemma dense_addToQueue_iff:
  assumes d: "dense userId db"
    and add: "addToQueue now queueItem userId db = Inr (row, db')"
    and live: "non_terminal row"
  shows "dense userId db' \<longleftrightarrow>
           iq_position queueItem = int (length (live_entries userId db)) + 1"
proof -
  let ?n = "length (live_entries userId db)"
  from add have pos: "q_position row = iq_position queueItem"
    by (auto simp: addToQueue_def Let_def split: if_splits)
  from add live have entries: "live_entries userId db' = live_entries userId db @ [row]"
    by (simp add: live_entries_addToQueue)
  from d have before: "set (map q_position (live_entries userId db)) = {1 .. int ?n}"
    by (simp add: dense_def)
  have "dense userId db' \<longleftrightarrow>
          insert (iq_position queueItem) {1 .. int ?n} = {1 .. int (Suc ?n)}"
    unfolding dense_def entries using before pos by simp
  then show ?thesis
    by (simp only: interval_insert_iff)
qed

lemma dense_removeFromQueue_iff:
  assumes d: "dense userId db"
    and ids: "distinct (map q_id (queue_table db))"
    and r: "r \<in> set (live_entries userId db)"
  shows "dense userId (removeFromQueue (q_id r) db) \<longleftrightarrow>
           q_position r = int (length (live_entries userId db))"
proof -
  let ?L = "live_entries userId db"
  let ?n = "length ?L"
  from ids have k: "distinct (map q_id ?L)"
    by (rule distinct_ids_live)
  from d have g: "distinct (map q_position ?L)"
    by (rule dense_distinct)
  from d have before: "q_position ` set ?L = {1 .. int ?n}"
    by (simp add: dense_def)
  with r have inside: "q_position r \<in> {1 .. int ?n}"
    by blast
  have len: "length (filter (\<lambda>x. q_id x \<noteq> q_id r) ?L) = ?n - 1"
    using k r by (rule length_without_row)
  have img: "q_position ` {x \<in> set ?L. q_id x \<noteq> q_id r} = {1 .. int ?n} - {q_position r}"
    using image_without_row [OF k g r] before by simp
  have "dense userId (removeFromQueue (q_id r) db) \<longleftrightarrow>
          {1 .. int ?n} - {q_position r} = {1 .. int (?n - 1)}"
    unfolding dense_def live_entries_removeFromQueue using len img by simp
  with inside show ?thesis
    by (simp only: interval_remove_iff)
qed

lemma dense_updateQueuePosition_iff:
  assumes d: "dense userId db"
    and ids: "distinct (map q_id (queue_table db))"
    and r: "r \<in> set (live_entries userId db)"
    and upd: "updateQueuePosition now (q_id r) p db = Inr (x, db')"
  shows "dense userId db' \<longleftrightarrow> p = q_position r"
proof -
  let ?L = "live_entries userId db"
  let ?n = "length ?L"
  let ?f = "\<lambda>x. if q_id x = q_id r then x\<lparr>q_position := p, q_updatedAt := Some now\<rparr> else x"
  from ids have k: "distinct (map q_id ?L)"
    by (rule distinct_ids_live)
  from d have g: "distinct (map q_position ?L)"
    by (rule dense_distinct)
  from d have before: "q_position ` set ?L = {1 .. int ?n}"
    by (simp add: dense_def)
  with r have inside: "q_position r \<in> {1 .. int ?n}"
    by blast
  have img: "q_position ` {x \<in> set ?L. q_id x \<noteq> q_id r} = {1 .. int ?n} - {q_position r}"
    using image_without_row [OF k g r] before by simp
  have split: "set ?L = {x \<in> set ?L. q_id x = q_id r} \<union> {x \<in> set ?L. q_id x \<noteq> q_id r}"
    by auto
  have moved: "(q_position \<circ> ?f) ` {x \<in> set ?L. q_id x = q_id r} = {p}"
    using r by force
  have kept: "(q_position \<circ> ?f) ` {x \<in> set ?L. q_id x \<noteq> q_id r} =
                q_position ` {x \<in> set ?L. q_id x \<noteq> q_id r}"
    by (rule image_cong) auto
  have "(q_position \<circ> ?f) ` set ?L =
          (q_position \<circ> ?f) ` {x \<in> set ?L. q_id x = q_id r} \<union>
          (q_position \<circ> ?f) ` {x \<in> set ?L. q_id x \<noteq> q_id r}"
    by (subst split) (rule image_Un)
  then have "(q_position \<circ> ?f) ` set ?L =
          insert p (q_position ` {x \<in> set ?L. q_id x \<noteq> q_id r})"
    by (simp only: moved kept insert_is_Un [symmetric])
  with img have after: "set (map q_position (map ?f ?L)) =
          insert p ({1 .. int ?n} - {q_position r})"
    by (simp add: image_comp)
  have "dense userId db' \<longleftrightarrow>
          insert p ({1 .. int ?n} - {q_position r}) = {1 .. int ?n}"
    unfolding dense_def live_entries_updateQueuePosition [OF upd] using after by simp
  with inside show ?thesis
    by (simp only: interval_replace_iff)
qed

text \<open>
  C1, amended. No operation renumbers, so each operation keeps a dense queue dense in
  one case only. From a state where the positions of the tenant's non-terminal entries
  are exactly \<open>{1, ..., N}\<close>: an admission of a non-terminal entry that the database
  accepts keeps them dense exactly when the supplied position is \<open>N + 1\<close>; removing a
  non-terminal entry of the tenant keeps them dense exactly when that entry held
  position \<open>N\<close>; a repositioning of a non-terminal entry of the tenant that the database
  accepts keeps them dense exactly when the new position is the old one. (Ids are
  unique: \<^verbatim>\<open>id\<close> is the primary key. The database refuses numbers outside the 32-bit
  integer columns and then changes nothing.)
\<close>

theorem density_kept_exactly_when:
  assumes "dense userId db"
  shows "(\<forall>row db'. addToQueue now queueItem userId db = Inr (row, db') \<and> non_terminal row \<longrightarrow>
            (dense userId db' \<longleftrightarrow>
               iq_position queueItem = int (length (live_entries userId db)) + 1)) \<and>
         (\<forall>r. distinct (map q_id (queue_table db)) \<and> r \<in> set (live_entries userId db) \<longrightarrow>
            (dense userId (removeFromQueue (q_id r) db) \<longleftrightarrow>
               q_position r = int (length (live_entries userId db))) \<and>
            (\<forall>x db'. updateQueuePosition now' (q_id r) p db = Inr (x, db') \<longrightarrow>
               (dense userId db' \<longleftrightarrow> p = q_position r)))"
proof -
  have admit: "dense userId db' \<longleftrightarrow>
      iq_position queueItem = int (length (live_entries userId db)) + 1"
    if "addToQueue now queueItem userId db = Inr (row, db')" and "non_terminal row"
    for row db'
    using assms that by (rule dense_addToQueue_iff)
  have remove: "dense userId (removeFromQueue (q_id r) db) \<longleftrightarrow>
      q_position r = int (length (live_entries userId db))"
    if "distinct (map q_id (queue_table db))" and "r \<in> set (live_entries userId db)" for r
    using assms that by (rule dense_removeFromQueue_iff)
  have reposition: "dense userId db' \<longleftrightarrow> p = q_position r"
    if "distinct (map q_id (queue_table db))" and "r \<in> set (live_entries userId db)"
      and "updateQueuePosition now' (q_id r) p db = Inr (x, db')" for r x db'
    using assms that by (rule dense_updateQueuePosition_iff)
  from admit remove reposition show ?thesis
    by blast
qed

theorem density_kept_exactly_when_witness:
  "dense ''A'' three_in_line \<and>
   addToQueue 0 (walk_in 1 1 4) ''A'' three_in_line =
     Inr (entry 4 ''A'' 4 ''waiting'',
          shop_with_queue [entry 1 ''A'' 1 ''waiting'', entry 2 ''A'' 2 ''waiting'',
                           entry 3 ''A'' 3 ''waiting'', entry 4 ''A'' 4 ''waiting'']) \<and>
   non_terminal (entry 4 ''A'' 4 ''waiting'') \<and>
   dense ''A'' (shop_with_queue [entry 1 ''A'' 1 ''waiting'', entry 2 ''A'' 2 ''waiting'',
                                 entry 3 ''A'' 3 ''waiting'', entry 4 ''A'' 4 ''waiting'']) \<and>
   distinct (map q_id (queue_table three_in_line)) \<and>
   entry 3 ''A'' 3 ''waiting'' \<in> set (live_entries ''A'' three_in_line) \<and>
   dense ''A'' (removeFromQueue 3 three_in_line) \<and>
   updateQueuePosition 7 3 1 three_in_line =
     Inr (Some ((entry 3 ''A'' 1 ''waiting'')\<lparr>q_updatedAt := Some 7\<rparr>),
          shop_with_queue [entry 1 ''A'' 1 ''waiting'', entry 2 ''A'' 2 ''waiting'',
                           (entry 3 ''A'' 1 ''waiting'')\<lparr>q_updatedAt := Some 7\<rparr>]) \<and>
   \<not> dense ''A'' (shop_with_queue [entry 1 ''A'' 1 ''waiting'', entry 2 ''A'' 2 ''waiting'',
                                   (entry 3 ''A'' 1 ''waiting'')\<lparr>q_updatedAt := Some 7\<rparr>])"
proof -
  have three: "dense ''A'' three_in_line"
    by (auto simp: dense_def live_entries_def non_terminal_def three_in_line_def
        shop_with_queue_def entry_def)
  have add: "addToQueue 0 (walk_in 1 1 4) ''A'' three_in_line =
     Inr (entry 4 ''A'' 4 ''waiting'',
          shop_with_queue [entry 1 ''A'' 1 ''waiting'', entry 2 ''A'' 2 ''waiting'',
                           entry 3 ''A'' 3 ''waiting'', entry 4 ''A'' 4 ''waiting''])"
    by (simp add: addToQueue_def queue_fk_ok_def walk_in_def shop_def
        entry_def shop_with_queue_def three_in_line_def with_default_def
        queue_values_in_range_def in_int4_def Let_def)
  have live: "non_terminal (entry 4 ''A'' 4 ''waiting'')"
    by (simp add: non_terminal_def entry_def)
  have ids: "distinct (map q_id (queue_table three_in_line))"
    by (simp add: three_in_line_def shop_with_queue_def entry_def)
  have third: "entry 3 ''A'' 3 ''waiting'' \<in> set (live_entries ''A'' three_in_line)"
    by (simp add: live_entries_def non_terminal_def three_in_line_def shop_with_queue_def
        entry_def)
  have count: "int (length (live_entries ''A'' three_in_line)) = 3"
    by (simp add: live_entries_def non_terminal_def three_in_line_def shop_with_queue_def
        entry_def)
  have id3: "q_id (entry 3 ''A'' 3 ''waiting'') = 3"
    and pos3: "q_position (entry 3 ''A'' 3 ''waiting'') = 3"
    by (simp_all add: entry_def)
  have pos4: "iq_position (walk_in 1 1 4) = 4"
    by (simp add: walk_in_def)
  have move: "updateQueuePosition 7 3 1 three_in_line =
     Inr (Some ((entry 3 ''A'' 1 ''waiting'')\<lparr>q_updatedAt := Some 7\<rparr>),
          shop_with_queue [entry 1 ''A'' 1 ''waiting'', entry 2 ''A'' 2 ''waiting'',
                           (entry 3 ''A'' 1 ''waiting'')\<lparr>q_updatedAt := Some 7\<rparr>])"
    by (simp add: updateQueuePosition_def in_int4_def first_row_def three_in_line_def
        shop_with_queue_def entry_def Let_def)
  note step = density_kept_exactly_when [OF three, where now = 0 and queueItem = "walk_in 1 1 4"
      and now' = 7 and p = 1]
  from step add live have "dense ''A'' (shop_with_queue [entry 1 ''A'' 1 ''waiting'',
        entry 2 ''A'' 2 ''waiting'', entry 3 ''A'' 3 ''waiting'', entry 4 ''A'' 4 ''waiting'']) \<longleftrightarrow>
      iq_position (walk_in 1 1 4) = int (length (live_entries ''A'' three_in_line)) + 1"
    by blast
  with count pos4 have admitted: "dense ''A'' (shop_with_queue [entry 1 ''A'' 1 ''waiting'',
        entry 2 ''A'' 2 ''waiting'', entry 3 ''A'' 3 ''waiting'', entry 4 ''A'' 4 ''waiting''])"
    by simp
  from step ids third
  have "dense ''A'' (removeFromQueue (q_id (entry 3 ''A'' 3 ''waiting'')) three_in_line) \<longleftrightarrow>
      q_position (entry 3 ''A'' 3 ''waiting'') = int (length (live_entries ''A'' three_in_line))"
    by blast
  with count id3 pos3 have removed: "dense ''A'' (removeFromQueue 3 three_in_line)"
    by simp
  from move id3 have move': "updateQueuePosition 7 (q_id (entry 3 ''A'' 3 ''waiting'')) 1
      three_in_line =
     Inr (Some ((entry 3 ''A'' 1 ''waiting'')\<lparr>q_updatedAt := Some 7\<rparr>),
          shop_with_queue [entry 1 ''A'' 1 ''waiting'', entry 2 ''A'' 2 ''waiting'',
                           (entry 3 ''A'' 1 ''waiting'')\<lparr>q_updatedAt := Some 7\<rparr>])"
    by simp
  from step ids third move'
  have "dense ''A'' (shop_with_queue [entry 1 ''A'' 1 ''waiting'', entry 2 ''A'' 2 ''waiting'',
                           (entry 3 ''A'' 1 ''waiting'')\<lparr>q_updatedAt := Some 7\<rparr>]) \<longleftrightarrow>
      1 = q_position (entry 3 ''A'' 3 ''waiting'')"
    by blast
  with pos3 have collided: "\<not> dense ''A'' (shop_with_queue [entry 1 ''A'' 1 ''waiting'',
      entry 2 ''A'' 2 ''waiting'', (entry 3 ''A'' 1 ''waiting'')\<lparr>q_updatedAt := Some 7\<rparr>])"
    by simp
  from three add live admitted ids third removed move collided show ?thesis
    by (simp only: simp_thms)
qed

end
